theory Spec2Isabelle
  imports Main "HOL-Library.Char_ord" "HOL-Library.List_Lexorder"
begin

section \<open>Data model of the relationship service\<close>

text \<open>
  The development embeds \<open>RelationshipService\<close> of
  \<open>src/relationship/relationship.service.ts\<close> (the current version, the first one in the
  file). User identifiers are strings and are compared with JavaScript's \<open><=\<close> on
  strings, which is the lexicographic order on the character codes: this is the order of
  \<open>HOL-Library.List_Lexorder\<close> over \<open>HOL-Library.Char_ord\<close>. Document identifiers
  (\<open>_id\<close> of a relationship, a conversation, a membership) are opaque values assigned by
  the store; they are natural numbers here.
\<close>

type_synonym oid = nat

text \<open>
  Modelled from the spec: the enumeration \<open>RelationshipStatus\<close>
  (\<open>entities/relationship.enum\<close>) is imported by the service but is not among the
  sources; its six values are those the spec lists.
\<close>

datatype RelationshipStatus =
  REQUEST_USER_A | REQUEST_USER_B | FRIENDS | AWAY | BLOCKED_USER_A | BLOCKED_USER_B

text \<open>
  Modelled from the spec: \<open>MembershipRole\<close> (\<open>membership-role.enum\<close>) is not among
  the sources; the spec gives its values as \<open>HOST\<close> and \<open>MEMBER\<close>.
\<close>

datatype MembershipRole = HOST | MEMBER

text \<open>
  The exceptions the service throws, with their messages, and the two it can meet without
  throwing them itself: the \<open>TypeError\<close> of reading a property of null, and an error of
  the store.
\<close>

datatype exn =
    BadRequestException string
  | NotFoundException string
  | UnauthorizedException string
  | InternalServerErrorException string
  | TypeError
  | MongoServerError

text \<open>
  Modelled from the spec: the entities \<open>User\<close> and \<open>Relationship\<close> and the request
  objects (\<open>CreateRelationshipDto\<close>, \<open>BlockUserDto\<close>, \<open>CreateConversationDto\<close> and
  the request of a membership) are declared outside the sources. Their fields here are those
  the service reads and writes, which are also those the spec lists: of a user, the
  identifier.
\<close>

record User =
  user_id :: string

text \<open>
  A relationship document. The type parameter is the content of the two user slots: a user
  identifier in the store (\<open>Relationship\<close>), the resolved user or null after
  \<open>populate\<close> (\<open>PopulatedRelationship\<close>).
\<close>

record 'u RelationshipDoc =
  r_id :: oid
  userA :: 'u
  userB :: 'u
  status :: RelationshipStatus
  blockedAt :: "nat option"
  privateConversation :: "oid option"

type_synonym Relationship = "string RelationshipDoc"
type_synonym PopulatedRelationship = "User option RelationshipDoc"

record CreateRelationshipDto =
  dto_userA :: string
  dto_userB :: string
  dto_status :: RelationshipStatus

record BlockUserDto =
  blockedBy :: string
  targetUser :: string

text \<open>
  Modelled from the spec: \<open>UpdateRelationshipDto\<close> is not among the sources; the spec
  calls it a partial update of fields. Every mutable field may be present or absent.
\<close>

record UpdateRelationshipDto =
  upd_userA :: "string option"
  upd_userB :: "string option"
  upd_status :: "RelationshipStatus option"
  upd_blockedAt :: "nat option option"
  upd_privateConversation :: "oid option option"

record CreateConversationDto =
  conv_name :: string
  conv_description :: string
  conv_createdBy :: string
  conv_host :: string

record Conversation =
  c_id :: oid
  c_name :: string
  c_description :: string
  c_createdBy :: string
  c_host :: string

record CreateMembershipDto =
  dto_user :: string
  dto_conversation :: oid
  dto_role :: MembershipRole

record Membership =
  m_id :: oid
  m_user :: string
  m_conversation :: oid
  m_role :: MembershipRole

text \<open>
  Every write to a store is recorded with what was written, in the order in which the
  writes happen.
\<close>

datatype event =
    RelationshipSaved Relationship
  | RelationshipUpdated oid UpdateRelationshipDto
  | ConversationCreated Conversation
  | MembershipCreated Membership

record world =
  users :: "User list"
  relationships :: "Relationship list"
  conversations :: "Conversation list"
  memberships :: "Membership list"
  effects :: "event list"

text \<open>
  What the service depends on and the sources do not contain: whether the relationship
  collection carries the uniqueness constraint over the pair \<open>(userA, userB)\<close> that the
  spec describes, and when the conversation and the membership collaborators refuse a
  request (the exception thrown, if any).
\<close>

record env =
  pair_unique :: bool
  conversation_rejects :: "world \<Rightarrow> CreateConversationDto \<Rightarrow> exn option"
  membership_rejects :: "world \<Rightarrow> string \<Rightarrow> CreateMembershipDto \<Rightarrow> exn option"

section \<open>The stores\<close>

definition fresh_oid :: "oid list \<Rightarrow> oid" where
  "fresh_oid ids = Suc (fold max ids 0)"

text \<open>
  Modelled from the spec: \<open>UserService.findById\<close> is not among the sources;
  the user directory resolves an identifier to the user with that identifier, or to null.
\<close>

definition userService_findById :: "world \<Rightarrow> string \<Rightarrow> User option" where
  "userService_findById w uid = find (\<lambda>u. user_id u = uid) (users w)"

definition populate :: "world \<Rightarrow> Relationship \<Rightarrow> PopulatedRelationship" where
  "populate w r =
     \<lparr> r_id = r_id r,
       userA = userService_findById w (userA r),
       userB = userService_findById w (userB r),
       status = status r,
       blockedAt = blockedAt r,
       privateConversation = privateConversation r \<rparr>"

text \<open>\<open>new this.relationshipModel({userA, userB, status}).save()\<close>\<close>

definition save :: "env \<Rightarrow> string \<Rightarrow> string \<Rightarrow> RelationshipStatus \<Rightarrow> world
    \<Rightarrow> (exn + Relationship) \<times> world" where
  "save e a b st w =
     (if pair_unique e \<and> list_ex (\<lambda>r. userA r = a \<and> userB r = b) (relationships w)
      then (Inl MongoServerError, w)
      else
        let data = \<lparr> r_id = fresh_oid (map r_id (relationships w)),
                     userA = a, userB = b, status = st,
                     blockedAt = None, privateConversation = None \<rparr>
        in (Inr data,
            w\<lparr> relationships := relationships w @ [data],
               effects := effects w @ [RelationshipSaved data] \<rparr>))"

fun update_first :: "('a \<Rightarrow> bool) \<Rightarrow> ('a \<Rightarrow> 'a) \<Rightarrow> 'a list \<Rightarrow> 'a list" where
  "update_first P f [] = []"
| "update_first P f (x # xs) = (if P x then f x # xs else x # update_first P f xs)"

definition apply_update :: "UpdateRelationshipDto \<Rightarrow> Relationship \<Rightarrow> Relationship" where
  "apply_update d r =
     r\<lparr> userA := (case upd_userA d of None \<Rightarrow> userA r | Some v \<Rightarrow> v),
        userB := (case upd_userB d of None \<Rightarrow> userB r | Some v \<Rightarrow> v),
        status := (case upd_status d of None \<Rightarrow> status r | Some v \<Rightarrow> v),
        blockedAt := (case upd_blockedAt d of None \<Rightarrow> blockedAt r | Some v \<Rightarrow> v),
        privateConversation :=
          (case upd_privateConversation d of None \<Rightarrow> privateConversation r | Some v \<Rightarrow> v) \<rparr>"

definition no_update :: UpdateRelationshipDto where
  "no_update = \<lparr> upd_userA = None, upd_userB = None, upd_status = None,
                 upd_blockedAt = None, upd_privateConversation = None \<rparr>"

text \<open>
  \<open>this.relationshipModel.findByIdAndUpdate(id, fields, { new: true })\<close>: the first
  document with that \<open>_id\<close> is updated and returned, null when there is none. Under the
  uniqueness constraint, an update that moves a document onto the pair of another one is
  refused.
\<close>

definition findByIdAndUpdate :: "env \<Rightarrow> oid \<Rightarrow> UpdateRelationshipDto \<Rightarrow> world
    \<Rightarrow> (exn + Relationship option) \<times> world" where
  "findByIdAndUpdate e i d w =
     (case find (\<lambda>r. r_id r = i) (relationships w) of
        None \<Rightarrow> (Inr None, w)
      | Some r \<Rightarrow>
          if pair_unique e \<and> (upd_userA d \<noteq> None \<or> upd_userB d \<noteq> None) \<and>
             list_ex (\<lambda>r'. r_id r' \<noteq> i \<and> userA r' = userA (apply_update d r) \<and>
                           userB r' = userB (apply_update d r)) (relationships w)
          then (Inl MongoServerError, w)
          else
            (Inr (Some (apply_update d r)),
             w\<lparr> relationships :=
                  update_first (\<lambda>r. r_id r = i) (apply_update d) (relationships w),
                effects := effects w @ [RelationshipUpdated i d] \<rparr>))"

text \<open>
  Modelled from the spec: \<open>ConversationService.create\<close> and
  \<open>MembershipService.create\<close> are not among the sources. Each either throws, leaving
  its store as it was, or stores one new record with the fields of the request and
  returns it.
\<close>

definition conversationService_create :: "env \<Rightarrow> CreateConversationDto \<Rightarrow> world
    \<Rightarrow> (exn + Conversation) \<times> world" where
  "conversationService_create e payload w =
     (case conversation_rejects e w payload of
        Some err \<Rightarrow> (Inl err, w)
      | None \<Rightarrow>
          let c = \<lparr> c_id = fresh_oid (map c_id (conversations w)),
                    c_name = conv_name payload,
                    c_description = conv_description payload,
                    c_createdBy = conv_createdBy payload,
                    c_host = conv_host payload \<rparr>
          in (Inr c,
              w\<lparr> conversations := conversations w @ [c],
                 effects := effects w @ [ConversationCreated c] \<rparr>))"

definition membershipService_create :: "env \<Rightarrow> string \<Rightarrow> CreateMembershipDto \<Rightarrow> world
    \<Rightarrow> (exn + Membership) \<times> world" where
  "membershipService_create e requestedUserId payload w =
     (case membership_rejects e w requestedUserId payload of
        Some err \<Rightarrow> (Inl err, w)
      | None \<Rightarrow>
          let m = \<lparr> m_id = fresh_oid (map m_id (memberships w)),
                    m_user = dto_user payload,
                    m_conversation = dto_conversation payload,
                    m_role = dto_role payload \<rparr>
          in (Inr m,
              w\<lparr> memberships := memberships w @ [m],
                 effects := effects w @ [MembershipCreated m] \<rparr>))"

text \<open>The decimal form of an identifier, for the name of the private conversation.\<close>

fun oid_string :: "oid \<Rightarrow> string" where
  "oid_string n =
     (if n < 10 then [''0123456789'' ! n]
      else oid_string (n div 10) @ [''0123456789'' ! (n mod 10)])"

declare oid_string.simps [simp del]

section \<open>The service\<close>

definition findById :: "world \<Rightarrow> oid \<Rightarrow> PopulatedRelationship option" where
  "findById w i =
     map_option (populate w) (find (\<lambda>r. r_id r = i \<and> blockedAt r = None) (relationships w))"

definition findByUserIds :: "world \<Rightarrow> string \<Rightarrow> string \<Rightarrow> Relationship option" where
  "findByUserIds w userAId userBId =
     (if userAId \<le> userBId
      then find (\<lambda>r. userA r = userAId \<and> userB r = userBId) (relationships w)
      else find (\<lambda>r. userA r = userBId \<and> userB r = userAId) (relationships w))"

text \<open>
  \<open>create\<close>. The call \<open>createCollection().then(() => startSession())\<close> before the
  \<open>try\<close> block is not awaited and its session is never used; it writes nothing.
\<close>

definition create :: "env \<Rightarrow> string \<Rightarrow> CreateRelationshipDto \<Rightarrow> world
    \<Rightarrow> (exn + PopulatedRelationship option) \<times> world" where
  "create e requestedUserId payload w =
     (if dto_userA payload = dto_userB payload
      then (Inl (BadRequestException ''User A and user B must be different''), w)
      else case userService_findById w (dto_userA payload) of
        None \<Rightarrow> (Inl (BadRequestException ''User A not found''), w)
      | Some ua \<Rightarrow>
     (case userService_findById w (dto_userB payload) of
        None \<Rightarrow> (Inl (BadRequestException ''User B not found''), w)
      | Some ub \<Rightarrow>
     (if (case findByUserIds w (user_id ua) (user_id ub) of
            None \<Rightarrow> False
          | Some existed \<Rightarrow> status existed \<noteq> AWAY)
      then (Inl (BadRequestException ''Relationship existed''), w)
      else if dto_status payload \<noteq> REQUEST_USER_A \<and> dto_status payload \<noteq> REQUEST_USER_B
      then (Inl (BadRequestException
                   ''Relationship status must be REQUEST_USER_A or REQUEST_USER_B''), w)
      else
        (case (if dto_userA payload \<le> dto_userB payload
               then save e (user_id ua) (user_id ub) (dto_status payload) w
               else save e (user_id ub) (user_id ua) (dto_status payload) w) of
           (Inl err, w') \<Rightarrow>
             (Inl (InternalServerErrorException ''Failed to create relationship''), w')
         | (Inr data, w') \<Rightarrow> (Inr (findById w' (r_id data)), w')))))"

definition findMyRelationship :: "world \<Rightarrow> oid \<Rightarrow> string \<Rightarrow> exn + PopulatedRelationship" where
  "findMyRelationship w relationshipId requestedUser =
     (case findById w relationshipId of
        None \<Rightarrow> Inl (NotFoundException ''Relationship not found'')
      | Some relationship \<Rightarrow>
     (case userA relationship of
        None \<Rightarrow> Inl TypeError
      | Some ua \<Rightarrow>
          if user_id ua = requestedUser then Inr relationship
          else
     (case userB relationship of
        None \<Rightarrow> Inl TypeError
      | Some ub \<Rightarrow>
          if user_id ub = requestedUser then Inr relationship
          else Inl (UnauthorizedException ''Unauthorized user''))))"

subsection \<open>Listing\<close>

text \<open>
  \<open>String.prototype.toUpperCase\<close> and \<open>toLowerCase\<close> on the ASCII letters; the
  status names and the sort directions are ASCII.
\<close>

definition toUpperCase_char :: "char \<Rightarrow> char" where
  "toUpperCase_char c =
     (case map_of (zip ''abcdefghijklmnopqrstuvwxyz'' ''ABCDEFGHIJKLMNOPQRSTUVWXYZ'') c of
        None \<Rightarrow> c
      | Some u \<Rightarrow> u)"

definition toLowerCase_char :: "char \<Rightarrow> char" where
  "toLowerCase_char c =
     (case map_of (zip ''ABCDEFGHIJKLMNOPQRSTUVWXYZ'' ''abcdefghijklmnopqrstuvwxyz'') c of
        None \<Rightarrow> c
      | Some l \<Rightarrow> l)"

definition toUpperCase :: "string \<Rightarrow> string" where
  "toUpperCase s = map toUpperCase_char s"

definition toLowerCase :: "string \<Rightarrow> string" where
  "toLowerCase s = map toLowerCase_char s"

text \<open>
  Modelled from the spec: the string stored for each value of \<open>RelationshipStatus\<close>
  (the enumeration is not among the sources) is the value's name.
\<close>

fun status_value :: "RelationshipStatus \<Rightarrow> string" where
  "status_value REQUEST_USER_A = ''REQUEST_USER_A''"
| "status_value REQUEST_USER_B = ''REQUEST_USER_B''"
| "status_value FRIENDS = ''FRIENDS''"
| "status_value AWAY = ''AWAY''"
| "status_value BLOCKED_USER_A = ''BLOCKED_USER_A''"
| "status_value BLOCKED_USER_B = ''BLOCKED_USER_B''"

text \<open>
  The store's \<open>sort\<close>: the value of the sort field in a document, and the store's order
  on values (null before numbers before strings). A field the documents do not have is
  null in each of them.
\<close>

datatype bson = BNull | BNum nat | BStr string

fun bson_le :: "bson \<Rightarrow> bson \<Rightarrow> bool" where
  "bson_le BNull _ = True"
| "bson_le (BNum a) BNull = False"
| "bson_le (BNum a) (BNum b) = (a \<le> b)"
| "bson_le (BNum a) (BStr b) = True"
| "bson_le (BStr a) (BStr b) = (a \<le> b)"
| "bson_le (BStr a) _ = False"

definition field_value :: "string \<Rightarrow> Relationship \<Rightarrow> bson" where
  "field_value f r =
     (if f = ''_id'' then BNum (r_id r)
      else if f = ''userA'' then BStr (userA r)
      else if f = ''userB'' then BStr (userB r)
      else if f = ''status'' then BStr (status_value (status r))
      else if f = ''blockedAt'' then (case blockedAt r of None \<Rightarrow> BNull | Some t \<Rightarrow> BNum t)
      else if f = ''privateConversation''
        then (case privateConversation r of None \<Rightarrow> BNull | Some c \<Rightarrow> BNum c)
      else BNull)"

fun insort_by :: "('a \<Rightarrow> 'a \<Rightarrow> bool) \<Rightarrow> 'a \<Rightarrow> 'a list \<Rightarrow> 'a list" where
  "insort_by le x [] = [x]"
| "insort_by le x (y # ys) = (if le x y then x # y # ys else y # insort_by le x ys)"

definition sort_by :: "('a \<Rightarrow> 'a \<Rightarrow> bool) \<Rightarrow> 'a list \<Rightarrow> 'a list" where
  "sort_by le xs = foldr (insort_by le) xs []"

definition sort_docs :: "string \<Rightarrow> bool \<Rightarrow> Relationship list \<Rightarrow> Relationship list" where
  "sort_docs f ascending xs =
     (if ascending
      then sort_by (\<lambda>x y. bson_le (field_value f x) (field_value f y)) xs
      else sort_by (\<lambda>x y. bson_le (field_value f y) (field_value f x)) xs)"

text \<open>\<open>limit(0)\<close> is no limit; a negative limit returns as many documents as its
  absolute value.\<close>

definition limit :: "int \<Rightarrow> 'a list \<Rightarrow> 'a list" where
  "limit n xs = (if n = 0 then xs else take (nat \<bar>n\<bar>) xs)"

record Listing =
  l_data :: "PopulatedRelationship list"
  l_page :: int
  l_size :: int
  l_count :: nat

definition findAll_filter :: "string \<Rightarrow> string \<Rightarrow> Relationship \<Rightarrow> bool" where
  "findAll_filter userId st r \<longleftrightarrow>
     (userA r = userId \<or> userB r = userId) \<and>
     status_value (status r) = toUpperCase st \<and>
     blockedAt r = None"

text \<open>The store refuses a negative \<open>skip\<close>; the query's options apply in the order
  sort, skip, limit, whatever the order of the calls that set them.\<close>

definition findAll :: "world \<Rightarrow> string \<Rightarrow> int \<Rightarrow> int \<Rightarrow> string \<Rightarrow> string \<Rightarrow> string
    \<Rightarrow> exn + Listing" where
  "findAll w userId page sz sortBy orderBy st =
     (let skipValue = (page - 1) * sz in
      if skipValue < 0 then Inl MongoServerError
      else
        let docs = limit sz (drop (nat skipValue)
                     (sort_docs sortBy (toLowerCase orderBy = ''asc'')
                        (filter (findAll_filter userId st) (relationships w))));
            data = map (populate w) docs
        in Inr \<lparr> l_data = data, l_page = page, l_size = sz, l_count = length data \<rparr>)"

subsection \<open>Confirming, updating, blocking\<close>

definition privateConversationPayload :: "string \<Rightarrow> oid \<Rightarrow> CreateConversationDto" where
  "privateConversationPayload hostId relationshipId =
     \<lparr> conv_name = ''Private conversation ['' @ oid_string relationshipId @ '']'',
       conv_description = ''Private conversation ['' @ oid_string relationshipId @ '']'',
       conv_createdBy = hostId,
       conv_host = hostId \<rparr>"

text \<open>The fields \<open>confirmFriendship\<close> and \<open>blockUser\<close> pass to
  \<open>findByIdAndUpdate\<close>.\<close>

definition friends_patch :: "oid \<Rightarrow> UpdateRelationshipDto" where
  "friends_patch conversationId =
     no_update\<lparr> upd_privateConversation := Some (Some conversationId),
                 upd_status := Some FRIENDS \<rparr>"

definition status_patch :: "RelationshipStatus \<Rightarrow> UpdateRelationshipDto" where
  "status_patch st = no_update\<lparr> upd_status := Some st \<rparr>"

text \<open>The body of the \<open>try\<close> block of \<open>confirmFriendship\<close>, with the exceptions as
  they are thrown. Reading \<open>.id\<close> of a user slot that \<open>populate\<close> left null throws.\<close>

definition confirmFriendship_try :: "env \<Rightarrow> string \<Rightarrow> oid \<Rightarrow> PopulatedRelationship \<Rightarrow> world
    \<Rightarrow> (exn + PopulatedRelationship option) \<times> world" where
  "confirmFriendship_try e requestedUserId relationshipId relationship w =
     (case conversationService_create e
             (privateConversationPayload requestedUserId relationshipId) w of
        (Inl err, w1) \<Rightarrow> (Inl err, w1)
      | (Inr conversation, w1) \<Rightarrow>
     (case userA relationship of
        None \<Rightarrow> (Inl TypeError, w1)
      | Some ua \<Rightarrow>
     (case membershipService_create e requestedUserId
             \<lparr> dto_user = user_id ua,
               dto_conversation = c_id conversation,
               dto_role = (if user_id ua = requestedUserId then HOST else MEMBER) \<rparr> w1 of
        (Inl err, w2) \<Rightarrow> (Inl err, w2)
      | (Inr userAMembership, w2) \<Rightarrow>
     (case userB relationship of
        None \<Rightarrow> (Inl TypeError, w2)
      | Some ub \<Rightarrow>
     (case membershipService_create e requestedUserId
             \<lparr> dto_user = user_id ub,
               dto_conversation = c_id conversation,
               dto_role = (if user_id ub = requestedUserId then HOST else MEMBER) \<rparr> w2 of
        (Inl err, w3) \<Rightarrow> (Inl err, w3)
      | (Inr userBMembership, w3) \<Rightarrow>
     (case findByIdAndUpdate e relationshipId (friends_patch (c_id conversation)) w3 of
        (Inl err, w4) \<Rightarrow> (Inl err, w4)
      | (Inr None, w4) \<Rightarrow> (Inl TypeError, w4)
      | (Inr (Some data), w4) \<Rightarrow> (Inr (findById w4 (r_id data)), w4)))))))"

definition confirmFriendship :: "env \<Rightarrow> string \<Rightarrow> oid \<Rightarrow> world
    \<Rightarrow> (exn + PopulatedRelationship option) \<times> world" where
  "confirmFriendship e requestedUserId relationshipId w =
     (case findById w relationshipId of
        None \<Rightarrow> (Inl (NotFoundException ''Relationship not found''), w)
      | Some relationship \<Rightarrow>
          if status relationship = FRIENDS
          then (Inl (BadRequestException ''Users are already friends''), w)
          else
            (case confirmFriendship_try e requestedUserId relationshipId relationship w of
               (Inl err, w') \<Rightarrow>
                 (Inl (InternalServerErrorException ''Failed to update relationship''), w')
             | (Inr r, w') \<Rightarrow> (Inr r, w')))"

definition update :: "env \<Rightarrow> oid \<Rightarrow> UpdateRelationshipDto \<Rightarrow> string \<Rightarrow> world
    \<Rightarrow> (exn + PopulatedRelationship option) \<times> world" where
  "update e i updateRelationshipDto requestedUser w =
     (case findById w i of
        None \<Rightarrow> (Inl (NotFoundException ''Relationship not found''), w)
      | Some relationship \<Rightarrow>
     (case findByIdAndUpdate e i updateRelationshipDto w of
        (Inl err, w') \<Rightarrow>
          (Inl (InternalServerErrorException ''Failed to update relationship''), w')
      | (Inr None, w') \<Rightarrow>
          (Inl (InternalServerErrorException ''Failed to update relationship''), w')
      | (Inr (Some data), w') \<Rightarrow> (Inr (findById w' (r_id data)), w')))"

definition blockUser :: "env \<Rightarrow> string \<Rightarrow> BlockUserDto \<Rightarrow> world
    \<Rightarrow> (exn + PopulatedRelationship option) \<times> world" where
  "blockUser e requestedUser blockUserDto w =
     (case userService_findById w (blockedBy blockUserDto) of
        None \<Rightarrow> (Inl (NotFoundException ''Block by user not found''), w)
      | Some blocker \<Rightarrow>
          if blockedBy blockUserDto \<noteq> requestedUser
          then (Inl (UnauthorizedException ''Unauthorized user''), w)
          else
     (case userService_findById w (targetUser blockUserDto) of
        None \<Rightarrow> (Inl (NotFoundException ''Target user not found''), w)
      | Some target \<Rightarrow>
     (case findByUserIds w (blockedBy blockUserDto) (targetUser blockUserDto) of
        None \<Rightarrow> (Inl (NotFoundException ''Relationship not found''), w)
      | Some relationship \<Rightarrow>
          if blockedAt relationship \<noteq> None
          then (Inl (BadRequestException ''Relationship is already blocked''), w)
          else
     (case findByIdAndUpdate e (r_id relationship)
             (status_patch (if blockedBy blockUserDto = userA relationship
                            then BLOCKED_USER_A else BLOCKED_USER_B)) w of
        (Inl err, w') \<Rightarrow> (Inl (InternalServerErrorException ''Failed to block user''), w')
      | (Inr None, w') \<Rightarrow> (Inl (InternalServerErrorException ''Failed to block user''), w')
      | (Inr (Some data), w') \<Rightarrow> (Inr (findById w' (r_id data)), w')))))"

section \<open>Store invariant, status semantics, sample data\<close>

text \<open>The store assigns every document its own \<open>_id\<close>.\<close>

definition ids_distinct :: "world \<Rightarrow> bool" where
  "ids_distinct w \<longleftrightarrow> distinct (map r_id (relationships w))"

text \<open>
  Modelled from the spec: "\<open>REQUEST_USER_A\<close> means userA initiated toward userB (and
  symmetrically for B)". The initiator a request status names among two user slots.
\<close>

definition spec_initiator :: "RelationshipStatus \<Rightarrow> string \<Rightarrow> string \<Rightarrow> string option" where
  "spec_initiator st a b =
     (if st = REQUEST_USER_A then Some a else if st = REQUEST_USER_B then Some b else None)"

definition env_indexed :: env where
  "env_indexed = \<lparr> pair_unique = True,
                    conversation_rejects = (\<lambda>w p. None),
                    membership_rejects = (\<lambda>w u p. None) \<rparr>"

definition env_plain :: env where
  "env_plain = \<lparr> pair_unique = False,
                  conversation_rejects = (\<lambda>w p. None),
                  membership_rejects = (\<lambda>w u p. None) \<rparr>"

definition env_membership_down :: env where
  "env_membership_down =
     \<lparr> pair_unique = True,
       conversation_rejects = (\<lambda>w p. None),
       membership_rejects = (\<lambda>w u p. Some (InternalServerErrorException ''membership'')) \<rparr>"

definition sample_rel :: "RelationshipStatus \<Rightarrow> nat option \<Rightarrow> Relationship" where
  "sample_rel st b = \<lparr> r_id = 1, userA = ''u1'', userB = ''u2'', status = st,
                       blockedAt = b, privateConversation = None \<rparr>"

definition sample_world :: "Relationship list \<Rightarrow> world" where
  "sample_world rs =
     \<lparr> users = [\<lparr>user_id = ''u1''\<rparr>, \<lparr>user_id = ''u2''\<rparr>, \<lparr>user_id = ''u3''\<rparr>],
       relationships = rs, conversations = [], memberships = [], effects = [] \<rparr>"

section \<open>Facts about the stores\<close>

lemma fold_max_ge: "(a::nat) \<le> fold max ids a"
proof (induction ids arbitrary: a)
  case Nil
  show ?case by simp
next
  case (Cons x xs)
  have "a \<le> max x a" by simp
  also have "\<dots> \<le> fold max xs (max x a)" by (rule Cons.IH)
  finally show ?case by simp
qed

lemma fold_max_mem: "i \<in> set ids \<Longrightarrow> (i::nat) \<le> fold max ids a"
proof (induction ids arbitrary: a)
  case Nil
  then show ?case by simp
next
  case (Cons x xs)
  show ?case
  proof (cases "i = x")
    case True
    have "x \<le> max x a" by simp
    also have "\<dots> \<le> fold max xs (max x a)" by (rule fold_max_ge)
    finally show ?thesis using True by simp
  next
    case False
    then have "i \<in> set xs" using Cons.prems by simp
    then show ?thesis using Cons.IH by simp
  qed
qed

lemma fresh_oid_gt: "i \<in> set ids \<Longrightarrow> i < fresh_oid ids"
  unfolding fresh_oid_def using fold_max_mem [of i ids 0] by simp

lemma userService_findById_id: "userService_findById w uid = Some u \<Longrightarrow> user_id u = uid"
  by (auto simp: userService_findById_def find_Some_iff)

lemma find_fresh:
  assumes "\<forall>r \<in> set rs. r_id r \<noteq> r_id d" "blockedAt d = None"
  shows "find (\<lambda>r. r_id r = r_id d \<and> blockedAt r = None) (rs @ [d]) = Some d"
  using assms by (induction rs) auto

lemma save_result:
  assumes "save e a b st w = (Inr data, w')"
  shows "relationships w' = relationships w @ [data] \<and> userA data = a \<and> userB data = b
    \<and> status data = st \<and> blockedAt data = None \<and> privateConversation data = None
    \<and> r_id data = fresh_oid (map r_id (relationships w))
    \<and> users w' = users w \<and> conversations w' = conversations w
    \<and> memberships w' = memberships w
    \<and> effects w' = effects w @ [RelationshipSaved data]
    \<and> findById w' (r_id data) = Some (populate w' data)"
proof -
  from assms have d: "data = \<lparr> r_id = fresh_oid (map r_id (relationships w)),
                     userA = a, userB = b, status = st,
                     blockedAt = None, privateConversation = None \<rparr>"
    and w': "w' = w\<lparr> relationships := relationships w @ [data],
               effects := effects w @ [RelationshipSaved data] \<rparr>"
    by (auto simp: save_def Let_def split: if_splits)
  have fresh: "\<forall>r \<in> set (relationships w). r_id r \<noteq> r_id data"
  proof
    fix r assume "r \<in> set (relationships w)"
    then have "r_id r \<in> set (map r_id (relationships w))" by simp
    from fresh_oid_gt [OF this] show "r_id r \<noteq> r_id data" using d by simp
  qed
  have "find (\<lambda>r. r_id r = r_id data \<and> blockedAt r = None) (relationships w @ [data])
          = Some data"
    by (rule find_fresh [OF fresh]) (simp add: d)
  then have "findById w' (r_id data) = Some (populate w' data)"
    by (simp add: findById_def w')
  then show ?thesis using d w' by simp
qed

lemma find_id_distinct:
  assumes "distinct (map r_id rs)" "r \<in> set rs"
  shows "find (\<lambda>x. r_id x = r_id r) rs = Some r"
  using assms by (induction rs) (auto simp: image_iff)

lemma find_visible_distinct:
  assumes "distinct (map r_id rs)" "r \<in> set rs"
  shows "find (\<lambda>x. r_id x = r_id r \<and> blockedAt x = None) rs
           = (if blockedAt r = None then Some r else None)"
  using assms by (induction rs) (auto simp: image_iff find_None_iff)

lemma find_SomeD:
  assumes "find P xs = Some x"
  shows "x \<in> set xs" and "P x"
  using assms by (induction xs) (auto split: if_splits)

lemma findById_SomeD:
  assumes "findById w i = Some p"
  obtains r where "r \<in> set (relationships w)" "r_id r = i" "blockedAt r = None"
    "p = populate w r"
proof -
  from assms obtain r where f: "find (\<lambda>r. r_id r = i \<and> blockedAt r = None) (relationships w) = Some r"
    and p: "p = populate w r"
    by (auto simp: findById_def)
  from find_SomeD [OF f] p that show thesis by blast
qed

lemma findById_distinct:
  assumes "ids_distinct w" "r \<in> set (relationships w)"
  shows "findById w (r_id r) = (if blockedAt r = None then Some (populate w r) else None)"
  using find_visible_distinct [of "relationships w" r] assms
  by (simp add: findById_def ids_distinct_def)

lemma r_id_apply_update [simp]: "r_id (apply_update d r) = r_id r"
  by (simp add: apply_update_def)

lemma map_r_id_update_first:
  "map r_id (update_first (\<lambda>r. r_id r = i) (apply_update d) rs) = map r_id rs"
  by (induction rs) auto

lemma update_first_mem:
  assumes "r \<in> set rs" "distinct (map r_id rs)"
  shows "apply_update d r \<in> set (update_first (\<lambda>x. r_id x = r_id r) (apply_update d) rs)"
  using assms by (induction rs) (auto simp: image_iff)

lemma findByIdAndUpdate_result:
  assumes "ids_distinct w" "r \<in> set (relationships w)"
    "upd_userA d = None" "upd_userB d = None"
  shows "\<exists>w'. findByIdAndUpdate e (r_id r) d w = (Inr (Some (apply_update d r)), w') \<and>
           relationships w' =
             update_first (\<lambda>x. r_id x = r_id r) (apply_update d) (relationships w) \<and>
           effects w' = effects w @ [RelationshipUpdated (r_id r) d] \<and>
           users w' = users w \<and> conversations w' = conversations w \<and>
           memberships w' = memberships w \<and> ids_distinct w' \<and>
           apply_update d r \<in> set (relationships w')"
  using assms find_id_distinct [of "relationships w" r] update_first_mem [of r "relationships w" d]
  by (simp add: findByIdAndUpdate_def ids_distinct_def map_r_id_update_first)

lemma populate_cong: "users w' = users w \<Longrightarrow> populate w' = populate w"
  by (rule ext) (simp add: populate_def userService_findById_def)

lemma findById_cong:
  "users w' = users w \<Longrightarrow> relationships w' = relationships w \<Longrightarrow> findById w' i = findById w i"
  using populate_cong [of w' w] by (simp add: findById_def)

lemma conversationService_create_cases:
  assumes "conversationService_create e p w = (res, w1)"
  obtains err where "res = Inl err" "w1 = w"
  | c where "res = Inr c"
      "w1 = w\<lparr> conversations := conversations w @ [c],
               effects := effects w @ [ConversationCreated c] \<rparr>"
      "c_id c = fresh_oid (map c_id (conversations w))"
      "c_createdBy c = conv_createdBy p" "c_host c = conv_host p"
  using assms by (auto simp: conversationService_create_def Let_def split: option.splits)

lemma membershipService_create_cases:
  assumes "membershipService_create e u p w = (res, w1)"
  obtains err where "res = Inl err" "w1 = w"
  | m where "res = Inr m"
      "w1 = w\<lparr> memberships := memberships w @ [m],
               effects := effects w @ [MembershipCreated m] \<rparr>"
      "m_user m = dto_user p" "m_conversation m = dto_conversation p" "m_role m = dto_role p"
  using assms by (auto simp: membershipService_create_def Let_def split: option.splits)

lemma findByIdAndUpdate_cases:
  assumes "findByIdAndUpdate e i d w = (res, w')" "upd_userA d = None" "upd_userB d = None"
  obtains "res = Inr None" "w' = w" "find (\<lambda>r. r_id r = i) (relationships w) = None"
  | r where "res = Inr (Some (apply_update d r))"
      "find (\<lambda>r. r_id r = i) (relationships w) = Some r" "r_id r = i"
      "w' = w\<lparr> relationships :=
                  update_first (\<lambda>r. r_id r = i) (apply_update d) (relationships w),
                effects := effects w @ [RelationshipUpdated i d] \<rparr>"
  using assms by (auto simp: findByIdAndUpdate_def split: option.splits dest: find_SomeD)

lemma friends_patch_users [simp]:
  "upd_userA (friends_patch c) = None" "upd_userB (friends_patch c) = None"
  by (simp_all add: friends_patch_def no_update_def)

lemma create_cases:
  assumes "create e requestedUserId payload w = (Inr res, w')"
  obtains ua ub data where
    "dto_userA payload \<noteq> dto_userB payload"
    "userService_findById w (dto_userA payload) = Some ua"
    "userService_findById w (dto_userB payload) = Some ub"
    "dto_status payload = REQUEST_USER_A \<or> dto_status payload = REQUEST_USER_B"
    "(if dto_userA payload \<le> dto_userB payload
      then save e (user_id ua) (user_id ub) (dto_status payload) w
      else save e (user_id ub) (user_id ua) (dto_status payload) w) = (Inr data, w')"
    "res = findById w' (r_id data)"
  using assms
  by (auto simp: create_def split: if_splits option.splits sum.splits prod.splits)

section \<open>Creating a relationship\<close>

text \<open>
  Claim C1. Whenever \<open>create\<close> succeeds, it has appended exactly one record to the
  relationship store, the record holds the two users of the request with
  \<open>userA \<le> userB\<close> in the lexicographic order of strings, whichever order the request
  gave them in, and the record is what \<open>create\<close> returns (populated).
\<close>

theorem create_stores_canonical_order:
  assumes "create e requestedUserId payload w = (Inr res, w')"
  shows "\<exists>r. relationships w' = relationships w @ [r] \<and> userA r \<le> userB r \<and>
             (if dto_userA payload \<le> dto_userB payload
              then userA r = dto_userA payload \<and> userB r = dto_userB payload
              else userA r = dto_userB payload \<and> userB r = dto_userA payload) \<and>
             res = Some (populate w' r)"
proof -
  from assms obtain ua ub data where
    ua: "userService_findById w (dto_userA payload) = Some ua" and
    ub: "userService_findById w (dto_userB payload) = Some ub" and
    sv: "(if dto_userA payload \<le> dto_userB payload
          then save e (user_id ua) (user_id ub) (dto_status payload) w
          else save e (user_id ub) (user_id ua) (dto_status payload) w) = (Inr data, w')" and
    res: "res = findById w' (r_id data)"
    by (rule create_cases)
  note ida = userService_findById_id [OF ua] and idb = userService_findById_id [OF ub]
  show ?thesis
  proof (cases "dto_userA payload \<le> dto_userB payload")
    case True
    with sv have "save e (user_id ua) (user_id ub) (dto_status payload) w = (Inr data, w')"
      by simp
    from save_result [OF this] show ?thesis using True ida idb res by auto
  next
    case False
    with sv have "save e (user_id ub) (user_id ua) (dto_status payload) w = (Inr data, w')"
      by simp
    from save_result [OF this] show ?thesis using False ida idb res by auto
  qed
qed

lemma create_swapped_sample:
  "create env_indexed ''u1''
     \<lparr> dto_userA = ''u2'', dto_userB = ''u1'', dto_status = REQUEST_USER_B \<rparr>
     (sample_world [])
   = (Inr (Some \<lparr> r_id = 1, userA = Some \<lparr>user_id = ''u1''\<rparr>,
                  userB = Some \<lparr>user_id = ''u2''\<rparr>, status = REQUEST_USER_B,
                  blockedAt = None, privateConversation = None \<rparr>),
      (sample_world [sample_rel REQUEST_USER_B None])
        \<lparr> effects := [RelationshipSaved (sample_rel REQUEST_USER_B None)] \<rparr>)"
  by (simp add: create_def env_indexed_def sample_world_def sample_rel_def
      userService_findById_def findByUserIds_def save_def findById_def populate_def
      fresh_oid_def Let_def)

theorem create_stores_canonical_order_witness:
  "fst (create env_indexed ''u1''
          \<lparr> dto_userA = ''u2'', dto_userB = ''u1'', dto_status = REQUEST_USER_B \<rparr>
          (sample_world []))
     = Inr (Some \<lparr> r_id = 1, userA = Some \<lparr>user_id = ''u1''\<rparr>,
                   userB = Some \<lparr>user_id = ''u2''\<rparr>, status = REQUEST_USER_B,
                   blockedAt = None, privateConversation = None \<rparr>) \<and>
   (\<exists>r. relationships (snd (create env_indexed ''u1''
          \<lparr> dto_userA = ''u2'', dto_userB = ''u1'', dto_status = REQUEST_USER_B \<rparr>
          (sample_world []))) = [r] \<and>
        userA r = ''u1'' \<and> userB r = ''u2'' \<and> userA r \<le> userB r)"
proof -
  note c = create_swapped_sample
  from create_stores_canonical_order [OF c] obtain r where
    r: "relationships ((sample_world [sample_rel REQUEST_USER_B None])
          \<lparr> effects := [RelationshipSaved (sample_rel REQUEST_USER_B None)] \<rparr>)
        = relationships (sample_world []) @ [r]"
    and le: "userA r \<le> userB r"
    by blast
  from r have "r = sample_rel REQUEST_USER_B None"
    by (simp add: sample_world_def)
  with le show ?thesis
    unfolding c by (simp add: sample_rel_def sample_world_def)
qed

text \<open>
  \<open>create\<close> succeeds on every request for two distinct, existing users that have no
  record yet, with a request status, whatever the store's constraint.
\<close>

lemma create_succeeds:
  assumes "dto_userA payload \<noteq> dto_userB payload"
    and "userService_findById w (dto_userA payload) \<noteq> None"
    and "userService_findById w (dto_userB payload) \<noteq> None"
    and "findByUserIds w (dto_userA payload) (dto_userB payload) = None"
    and "dto_status payload = REQUEST_USER_A \<or> dto_status payload = REQUEST_USER_B"
  shows "\<exists>res w'. create e requestedUserId payload w = (Inr res, w')"
proof -
  from assms(2) obtain ua where ua: "userService_findById w (dto_userA payload) = Some ua"
    by auto
  from assms(3) obtain ub where ub: "userService_findById w (dto_userB payload) = Some ub"
    by auto
  note ida = userService_findById_id [OF ua] and idb = userService_findById_id [OF ub]
  show ?thesis
  proof (cases "dto_userA payload \<le> dto_userB payload")
    case True
    with assms(4) have "\<not> list_ex (\<lambda>r. userA r = dto_userA payload \<and> userB r = dto_userB payload)
                   (relationships w)"
      by (simp add: findByUserIds_def find_None_iff list_ex_iff)
    then have "\<exists>data w'. save e (dto_userA payload) (dto_userB payload) (dto_status payload) w
                 = (Inr data, w')"
      by (simp add: save_def Let_def)
    with assms(1,4,5) ua ub True show ?thesis
      by (auto simp: create_def ida idb)
  next
    case False
    with assms(4) have "\<not> list_ex (\<lambda>r. userA r = dto_userB payload \<and> userB r = dto_userA payload)
                   (relationships w)"
      by (simp add: findByUserIds_def find_None_iff list_ex_iff)
    then have "\<exists>data w'. save e (dto_userB payload) (dto_userA payload) (dto_status payload) w
                 = (Inr data, w')"
      by (simp add: save_def Let_def)
    with assms(1,4,5) ua ub False show ?thesis
      by (auto simp: create_def ida idb)
  qed
qed

section \<open>Confirming a friendship\<close>

lemma confirmFriendship_try_success:
  assumes "confirmFriendship_try e u rid rel w = (Inr res, w')"
  shows "\<exists>ua ub c mA mB r.
     userA rel = Some ua \<and> userB rel = Some ub \<and>
     find (\<lambda>r. r_id r = rid) (relationships w) = Some r \<and>
     users w' = users w \<and>
     conversations w' = conversations w @ [c] \<and>
     memberships w' = memberships w @ [mA, mB] \<and>
     relationships w' =
       update_first (\<lambda>r. r_id r = rid) (apply_update (friends_patch (c_id c))) (relationships w) \<and>
     effects w' = effects w @ [ConversationCreated c, MembershipCreated mA,
                    MembershipCreated mB, RelationshipUpdated rid (friends_patch (c_id c))] \<and>
     m_user mA = user_id ua \<and> m_conversation mA = c_id c \<and>
     m_role mA = (if user_id ua = u then HOST else MEMBER) \<and>
     m_user mB = user_id ub \<and> m_conversation mB = c_id c \<and>
     m_role mB = (if user_id ub = u then HOST else MEMBER) \<and>
     res = findById w' rid"
proof -
  note t = assms [unfolded confirmFriendship_try_def]
  let ?p = "privateConversationPayload u rid"
  obtain r1 w1 where s1: "conversationService_create e ?p w = (r1, w1)" by fastforce
  from t s1 obtain c where r1: "r1 = Inr c" by (cases r1) auto
  from s1 r1 have w1: "w1 = w\<lparr> conversations := conversations w @ [c],
               effects := effects w @ [ConversationCreated c] \<rparr>"
    by (auto elim: conversationService_create_cases)
  from t s1 r1 obtain ua where ua: "userA rel = Some ua" by (cases "userA rel") auto
  let ?a = "\<lparr> dto_user = user_id ua, dto_conversation = c_id c,
               dto_role = (if user_id ua = u then HOST else MEMBER) \<rparr>"
  obtain r2 w2 where s2: "membershipService_create e u ?a w1 = (r2, w2)" by fastforce
  from t s1 r1 ua s2 obtain mA where r2: "r2 = Inr mA" by (cases r2) auto
  from s2 r2 have w2: "w2 = w1\<lparr> memberships := memberships w1 @ [mA],
               effects := effects w1 @ [MembershipCreated mA] \<rparr>"
    and mA: "m_user mA = user_id ua" "m_conversation mA = c_id c"
      "m_role mA = (if user_id ua = u then HOST else MEMBER)"
    by (auto elim: membershipService_create_cases)
  from t s1 r1 ua s2 r2 obtain ub where ub: "userB rel = Some ub" by (cases "userB rel") auto
  let ?b = "\<lparr> dto_user = user_id ub, dto_conversation = c_id c,
               dto_role = (if user_id ub = u then HOST else MEMBER) \<rparr>"
  obtain r3 w3 where s3: "membershipService_create e u ?b w2 = (r3, w3)" by fastforce
  from t s1 r1 ua s2 r2 ub s3 obtain mB where r3: "r3 = Inr mB" by (cases r3) auto
  from s3 r3 have w3: "w3 = w2\<lparr> memberships := memberships w2 @ [mB],
               effects := effects w2 @ [MembershipCreated mB] \<rparr>"
    and mB: "m_user mB = user_id ub" "m_conversation mB = c_id c"
      "m_role mB = (if user_id ub = u then HOST else MEMBER)"
    by (auto elim: membershipService_create_cases)
  obtain r4 w4 where s4: "findByIdAndUpdate e rid (friends_patch (c_id c)) w3 = (r4, w4)"
    by fastforce
  have "upd_userA (friends_patch (c_id c)) = None" "upd_userB (friends_patch (c_id c)) = None"
    by simp_all
  with s4 show ?thesis
  proof (cases rule: findByIdAndUpdate_cases)
    case 1
    with t s1 r1 ua s2 r2 ub s3 r3 s4 show ?thesis by simp
  next
    case (2 r)
    with t s1 r1 ua s2 r2 ub s3 r3 s4 have "w' = w4" "res = findById w4 rid" by auto
    with 2 w1 w2 w3 ua ub mA mB show ?thesis by simp
  qed
qed

lemma privateConversationPayload_host [simp]:
  "conv_createdBy (privateConversationPayload u rid) = u"
  "conv_host (privateConversationPayload u rid) = u"
  by (simp_all add: privateConversationPayload_def)

lemma friends_patch_eq:
  "friends_patch c = \<lparr> upd_userA = None, upd_userB = None, upd_status = Some FRIENDS,
                       upd_blockedAt = None, upd_privateConversation = Some (Some c) \<rparr>"
  by (simp add: friends_patch_def no_update_def)

lemma apply_friends_patch:
  "apply_update (friends_patch c) = (\<lambda>r. r\<lparr> status := FRIENDS, privateConversation := Some c \<rparr>)"
  by (rule ext) (simp add: apply_update_def friends_patch_def no_update_def)

lemma find_update_first:
  assumes "\<And>x. P (f x) = P x"
  shows "find P (update_first P f xs) = map_option f (find P xs)"
  using assms by (induction xs) auto

lemma confirmFriendship_try_prefix:
  assumes "confirmFriendship_try e u rid rel w = (res, w')"
  shows "\<exists>c mA mB k. k \<le> 4 \<and>
     effects w' = effects w @ take k [ConversationCreated c, MembershipCreated mA,
                    MembershipCreated mB,
                    RelationshipUpdated rid
                      \<lparr> upd_userA = None, upd_userB = None, upd_status = Some FRIENDS,
                        upd_blockedAt = None,
                        upd_privateConversation = Some (Some (c_id c)) \<rparr>] \<and>
     ((\<exists>r. res = Inr r) \<longleftrightarrow> k = 4) \<and>
     users w' = users w \<and>
     conversations w' = conversations w @ take k [c] \<and>
     memberships w' = memberships w @ take (k - 1) [mA, mB] \<and>
     (1 \<le> k \<longrightarrow> c_createdBy c = u \<and> c_host c = u) \<and>
     (2 \<le> k \<longrightarrow> (\<exists>ua. userA rel = Some ua \<and> m_user mA = user_id ua) \<and>
                 m_conversation mA = c_id c \<and>
                 m_role mA = (if m_user mA = u then HOST else MEMBER)) \<and>
     (3 \<le> k \<longrightarrow> (\<exists>ub. userB rel = Some ub \<and> m_user mB = user_id ub) \<and>
                 m_conversation mB = c_id c \<and>
                 m_role mB = (if m_user mB = u then HOST else MEMBER)) \<and>
     (k < 4 \<longrightarrow> relationships w' = relationships w) \<and>
     (k = 4 \<longrightarrow>
        relationships w' =
          update_first (\<lambda>r. r_id r = rid)
            (\<lambda>r. r\<lparr> status := FRIENDS, privateConversation := Some (c_id c) \<rparr>)
            (relationships w) \<and>
        (\<exists>r0. find (\<lambda>r. r_id r = rid) (relationships w) = Some r0 \<and>
              find (\<lambda>r. r_id r = rid) (relationships w')
                = Some (r0\<lparr> status := FRIENDS, privateConversation := Some (c_id c) \<rparr>)) \<and>
        res = Inr (findById w' rid))"
proof -
  note t = assms [unfolded confirmFriendship_try_def]
  obtain r1 w1 where
    s1: "conversationService_create e (privateConversationPayload u rid) w = (r1, w1)"
    by fastforce
  from s1 show ?thesis
  proof (cases rule: conversationService_create_cases)
    case (1 err)
    with t s1 have "res = Inl err" "w' = w" by auto
    then show ?thesis
      by (intro exI [of _ undefined] exI [of _ "0::nat"]) simp
  next
    case (2 c)
    note c = 2
    show ?thesis
    proof (cases "userA rel")
      case None
      with t s1 c have "res = Inl TypeError" "w' = w1" by auto
      with c show ?thesis
        apply (rule_tac x = c in exI)
        apply (rule_tac x = undefined in exI)
        apply (rule_tac x = undefined in exI)
        apply (rule_tac x = "1::nat" in exI)
        by simp
    next
      case (Some ua)
      note ua = Some
      obtain r2 w2 where s2: "membershipService_create e u
             \<lparr> dto_user = user_id ua, dto_conversation = c_id c,
               dto_role = (if user_id ua = u then HOST else MEMBER) \<rparr> w1 = (r2, w2)"
        by fastforce
      from s2 show ?thesis
      proof (cases rule: membershipService_create_cases)
        case (1 err)
        with t s1 c ua s2 have "res = Inl err" "w' = w1" by auto
        with c show ?thesis
          apply (rule_tac x = c in exI)
          apply (rule_tac x = undefined in exI)
          apply (rule_tac x = undefined in exI)
          apply (rule_tac x = "1::nat" in exI)
          by simp
      next
        case (2 mA)
        note mA = 2
        show ?thesis
        proof (cases "userB rel")
          case None
          with t s1 c ua s2 mA have "res = Inl TypeError" "w' = w2" by auto
          with c mA ua show ?thesis
            apply (rule_tac x = c in exI)
            apply (rule_tac x = mA in exI)
            apply (rule_tac x = undefined in exI)
            apply (rule_tac x = "2::nat" in exI)
            by simp
        next
          case (Some ub)
          note ub = Some
          obtain r3 w3 where s3: "membershipService_create e u
             \<lparr> dto_user = user_id ub, dto_conversation = c_id c,
               dto_role = (if user_id ub = u then HOST else MEMBER) \<rparr> w2 = (r3, w3)"
            by fastforce
          from s3 show ?thesis
          proof (cases rule: membershipService_create_cases)
            case (1 err)
            with t s1 c ua s2 mA ub s3 have "res = Inl err" "w' = w2" by auto
            with c mA ua show ?thesis
              apply (rule_tac x = c in exI)
              apply (rule_tac x = mA in exI)
              apply (rule_tac x = undefined in exI)
              apply (rule_tac x = "2::nat" in exI)
              by simp
          next
            case (2 mB)
            note mB = 2
            obtain r4 w4 where
              s4: "findByIdAndUpdate e rid (friends_patch (c_id c)) w3 = (r4, w4)"
              by fastforce
            have "upd_userA (friends_patch (c_id c)) = None"
              "upd_userB (friends_patch (c_id c)) = None"
              by simp_all
            with s4 show ?thesis
            proof (cases rule: findByIdAndUpdate_cases)
              case 1
              with t s1 c ua s2 mA ub s3 mB s4 have "res = Inl TypeError" "w' = w3" by auto
              with c mA mB ua ub show ?thesis
                apply (rule_tac x = c in exI)
                apply (rule_tac x = mA in exI)
                apply (rule_tac x = mB in exI)
                apply (rule_tac x = "3::nat" in exI)
                by simp
            next
              case (2 r)
              note upd = 2
              from t s1 c ua s2 mA ub s3 mB s4 upd
              have res: "res = Inr (findById w4 rid)" and w': "w' = w4" by auto
              have rs: "relationships w3 = relationships w"
                using c(2) mA(2) mB(2) by simp
              have ef: "effects w4 = effects w @ [ConversationCreated c, MembershipCreated mA,
                          MembershipCreated mB,
                          RelationshipUpdated rid (friends_patch (c_id c))]"
                using upd(4) c(2) mA(2) mB(2) by simp
              have cs: "conversations w4 = conversations w @ [c]"
                using upd(4) c(2) mA(2) mB(2) by simp
              have ms: "memberships w4 = memberships w @ [mA, mB]"
                using upd(4) c(2) mA(2) mB(2) by simp
              have us: "users w4 = users w"
                using upd(4) c(2) mA(2) mB(2) by simp
              have rs4: "relationships w4 =
                  update_first (\<lambda>r. r_id r = rid)
                    (\<lambda>r. r\<lparr> status := FRIENDS, privateConversation := Some (c_id c) \<rparr>)
                    (relationships w)"
                using upd(4) rs by (simp add: apply_friends_patch)
              have f0: "find (\<lambda>r. r_id r = rid) (relationships w) = Some r"
                using upd(2) rs by simp
              have f: "find (\<lambda>r. r_id r = rid) (relationships w4)
                         = Some (r\<lparr> status := FRIENDS,
                                    privateConversation := Some (c_id c) \<rparr>)"
                unfolding rs4
                using find_update_first [of "\<lambda>r. r_id r = rid"
                    "\<lambda>r. r\<lparr> status := FRIENDS, privateConversation := Some (c_id c) \<rparr>"
                    "relationships w"] f0
                by simp
              show ?thesis
                apply (rule exI [of _ c])
                apply (rule exI [of _ mA])
                apply (rule exI [of _ mB])
                apply (rule exI [of _ "4::nat"])
                using res w' ef cs ms us rs4 f f0 c(4,5) mA(3,4,5) mB(3,4,5) ua ub
                by (simp add: friends_patch_eq)
            qed
          qed
        qed
      qed
    qed
  qed
qed

lemmas eval_defs = confirmFriendship_def confirmFriendship_try_def conversationService_create_def
  membershipService_create_def findByIdAndUpdate_def findById_def populate_def
  userService_findById_def privateConversationPayload_def friends_patch_def status_patch_def
  no_update_def apply_update_def fresh_oid_def env_indexed_def env_plain_def sample_world_def
  sample_rel_def Let_def oid_string.simps findByUserIds_def save_def create_def blockUser_def
  update_def findMyRelationship_def

lemma findById_after_update:
  assumes "ids_distinct w" "r \<in> set (relationships w)" "users w' = users w"
    "relationships w' =
       update_first (\<lambda>x. r_id x = r_id r) (apply_update d) (relationships w)"
  shows "findById w' (r_id r) =
           (if blockedAt (apply_update d r) = None
            then Some (populate w (apply_update d r)) else None)"
proof -
  have d: "ids_distinct w'"
    using assms(1,4) by (simp add: ids_distinct_def map_r_id_update_first)
  have m: "apply_update d r \<in> set (relationships w')"
    using update_first_mem [of r "relationships w" d] assms(1,2,4)
    by (simp add: ids_distinct_def)
  from findById_distinct [OF d m] populate_cong [OF assms(3)] show ?thesis by simp
qed

lemma confirmFriendship_cases:
  assumes "confirmFriendship e u rid w = (res, w')"
  obtains "findById w rid = None" "res = Inl (NotFoundException ''Relationship not found'')"
      "w' = w"
  | rel where "findById w rid = Some rel" "status rel = FRIENDS"
      "res = Inl (BadRequestException ''Users are already friends'')" "w' = w"
  | rel err where "findById w rid = Some rel" "status rel \<noteq> FRIENDS"
      "confirmFriendship_try e u rid rel w = (Inl err, w')"
      "res = Inl (InternalServerErrorException ''Failed to update relationship'')"
  | rel r where "findById w rid = Some rel" "status rel \<noteq> FRIENDS"
      "confirmFriendship_try e u rid rel w = (Inr r, w')" "res = Inr r"
  using assms
  by (auto simp: confirmFriendship_def split: option.splits if_splits sum.splits prod.splits)

text \<open>
  Claim C2, as amended. On a relationship that \<open>findById\<close> returns (one that is not
  blocked) and whose status is \<open>FRIENDS\<close>, \<open>confirmFriendship\<close> fails with
  \<open>BadRequestException\<close> and changes nothing. When it succeeds, it returns the
  relationship with status \<open>FRIENDS\<close> and the new conversation as its private
  conversation, and exactly two memberships have been created, both for that conversation:
  one for the stored \<open>userA\<close>, one for the stored \<open>userB\<close>, each with role
  \<open>HOST\<close> if that user is the requester and \<open>MEMBER\<close> otherwise. So there is exactly
  one \<open>HOST\<close> when the requester is exactly one of the two participants, and none when
  the requester is not a participant.
\<close>

theorem confirmFriendship_roles:
  "(\<forall>rel. findById w rid = Some rel \<and> status rel = FRIENDS \<longrightarrow>
      confirmFriendship e u rid w
        = (Inl (BadRequestException ''Users are already friends''), w)) \<and>
   (\<forall>res w'. ids_distinct w \<and> confirmFriendship e u rid w = (Inr res, w') \<longrightarrow>
      (\<exists>p c mA mB r.
         res = Some p \<and> r_id p = rid \<and> status p = FRIENDS \<and>
         privateConversation p = Some (c_id c) \<and>
         conversations w' = conversations w @ [c] \<and>
         memberships w' = memberships w @ [mA, mB] \<and>
         m_conversation mA = c_id c \<and> m_conversation mB = c_id c \<and>
         r \<in> set (relationships w) \<and> r_id r = rid \<and>
         m_user mA = userA r \<and> m_user mB = userB r \<and>
         m_role mA = (if userA r = u then HOST else MEMBER) \<and>
         m_role mB = (if userB r = u then HOST else MEMBER)))"
proof (intro conjI allI impI)
  fix rel
  assume "findById w rid = Some rel \<and> status rel = FRIENDS"
  then show "confirmFriendship e u rid w
        = (Inl (BadRequestException ''Users are already friends''), w)"
    by (simp add: confirmFriendship_def)
next
  fix res w'
  assume a: "ids_distinct w \<and> confirmFriendship e u rid w = (Inr res, w')"
  then have dist: "ids_distinct w" and cf: "confirmFriendship e u rid w = (Inr res, w')"
    by simp_all
  from cf obtain rel where rel: "findById w rid = Some rel"
    and tr: "confirmFriendship_try e u rid rel w = (Inr res, w')"
    by (cases rule: confirmFriendship_cases) auto
  from rel obtain r where r: "r \<in> set (relationships w)" "r_id r = rid"
    "blockedAt r = None" "rel = populate w r"
    by (rule findById_SomeD)
  from confirmFriendship_try_success [OF tr] obtain ua ub c mA mB where
    ua: "userA rel = Some ua" and ub: "userB rel = Some ub" and
    us: "users w' = users w" and
    cs: "conversations w' = conversations w @ [c]" and
    ms: "memberships w' = memberships w @ [mA, mB]" and
    rs: "relationships w' = update_first (\<lambda>r. r_id r = rid)
           (apply_update (friends_patch (c_id c))) (relationships w)" and
    mA: "m_user mA = user_id ua" "m_conversation mA = c_id c"
      "m_role mA = (if user_id ua = u then HOST else MEMBER)" and
    mB: "m_user mB = user_id ub" "m_conversation mB = c_id c"
      "m_role mB = (if user_id ub = u then HOST else MEMBER)" and
    res: "res = findById w' rid"
    by blast
  from ua r(4) have "userService_findById w (userA r) = Some ua" by (simp add: populate_def)
  then have ida: "user_id ua = userA r" by (rule userService_findById_id)
  from ub r(4) have "userService_findById w (userB r) = Some ub" by (simp add: populate_def)
  then have idb: "user_id ub = userB r" by (rule userService_findById_id)
  let ?r' = "apply_update (friends_patch (c_id c)) r"
  have r': "blockedAt ?r' = None" "status ?r' = FRIENDS"
    "privateConversation ?r' = Some (c_id c)"
    using r(3) by (simp_all add: apply_update_def friends_patch_def no_update_def)
  from findById_after_update [OF dist r(1) us] rs r(2) r'(1)
  have "findById w' rid = Some (populate w ?r')" by simp
  with res have p: "res = Some (populate w ?r')" by simp
  have "r_id (populate w ?r') = rid" "status (populate w ?r') = FRIENDS"
    "privateConversation (populate w ?r') = Some (c_id c)"
    using r(2) r' by (simp_all add: populate_def)
  with p cs ms mA mB ida idb r(1,2)
  show "\<exists>p c mA mB r.
         res = Some p \<and> r_id p = rid \<and> status p = FRIENDS \<and>
         privateConversation p = Some (c_id c) \<and>
         conversations w' = conversations w @ [c] \<and>
         memberships w' = memberships w @ [mA, mB] \<and>
         m_conversation mA = c_id c \<and> m_conversation mB = c_id c \<and>
         r \<in> set (relationships w) \<and> r_id r = rid \<and>
         m_user mA = userA r \<and> m_user mB = userB r \<and>
         m_role mA = (if userA r = u then HOST else MEMBER) \<and>
         m_role mB = (if userB r = u then HOST else MEMBER)"
    by (intro exI [of _ "populate w ?r'"] exI [of _ c] exI [of _ mA] exI [of _ mB]
        exI [of _ r]) simp
qed

text \<open>
  Claim C8. The writes of \<open>confirmFriendship\<close> are an initial segment, of length
  \<open>k\<close>, of the sequence: the conversation \<open>c\<close> is created (by and for the requester),
  the membership of \<open>userA\<close> in \<open>c\<close> is created, the membership of \<open>userB\<close> in
  \<open>c\<close> is created, the relationship is updated with status \<open>FRIENDS\<close> and private
  conversation \<open>c\<close>. The conversation and membership stores hold exactly the records
  of the steps performed. The call succeeds exactly when all four steps were performed
  (\<open>k = 4\<close>); then the record with the given identifier has status \<open>FRIENDS\<close> and
  the conversation attached in the store, and the call returns what \<open>findById\<close> finds
  afterwards. When a step fails no later step is performed: the relationship store is
  unchanged unless both memberships were created.
\<close>

theorem confirmFriendship_effect_order:
  "\<exists>c mA mB k. k \<le> 4 \<and>
     effects (snd (confirmFriendship e u rid w))
       = effects w @ take k [ConversationCreated c, MembershipCreated mA,
                       MembershipCreated mB,
                       RelationshipUpdated rid
                         \<lparr> upd_userA = None, upd_userB = None, upd_status = Some FRIENDS,
                           upd_blockedAt = None,
                           upd_privateConversation = Some (Some (c_id c)) \<rparr>] \<and>
     ((\<exists>r. fst (confirmFriendship e u rid w) = Inr r) \<longleftrightarrow> k = 4) \<and>
     conversations (snd (confirmFriendship e u rid w)) = conversations w @ take k [c] \<and>
     memberships (snd (confirmFriendship e u rid w))
       = memberships w @ take (k - 1) [mA, mB] \<and>
     (1 \<le> k \<longrightarrow> c_createdBy c = u \<and> c_host c = u) \<and>
     (2 \<le> k \<longrightarrow>
        (\<exists>rel ua. findById w rid = Some rel \<and> userA rel = Some ua \<and>
                  m_user mA = user_id ua) \<and>
        m_conversation mA = c_id c \<and>
        m_role mA = (if m_user mA = u then HOST else MEMBER)) \<and>
     (3 \<le> k \<longrightarrow>
        (\<exists>rel ub. findById w rid = Some rel \<and> userB rel = Some ub \<and>
                  m_user mB = user_id ub) \<and>
        m_conversation mB = c_id c \<and>
        m_role mB = (if m_user mB = u then HOST else MEMBER)) \<and>
     (k < 4 \<longrightarrow> relationships (snd (confirmFriendship e u rid w)) = relationships w) \<and>
     (k = 4 \<longrightarrow>
        relationships (snd (confirmFriendship e u rid w)) =
          update_first (\<lambda>r. r_id r = rid)
            (\<lambda>r. r\<lparr> status := FRIENDS, privateConversation := Some (c_id c) \<rparr>)
            (relationships w) \<and>
        (\<exists>r0. find (\<lambda>r. r_id r = rid) (relationships w) = Some r0 \<and>
              find (\<lambda>r. r_id r = rid) (relationships (snd (confirmFriendship e u rid w)))
                = Some (r0\<lparr> status := FRIENDS, privateConversation := Some (c_id c) \<rparr>)) \<and>
        fst (confirmFriendship e u rid w)
          = Inr (findById (snd (confirmFriendship e u rid w)) rid))"
proof -
  obtain res w' where cf: "confirmFriendship e u rid w = (res, w')" by fastforce
  have "\<exists>c mA mB k. k \<le> 4 \<and>
     effects w' = effects w @ take k [ConversationCreated c, MembershipCreated mA,
                    MembershipCreated mB,
                    RelationshipUpdated rid
                      \<lparr> upd_userA = None, upd_userB = None, upd_status = Some FRIENDS,
                        upd_blockedAt = None,
                        upd_privateConversation = Some (Some (c_id c)) \<rparr>] \<and>
     ((\<exists>r. res = Inr r) \<longleftrightarrow> k = 4) \<and>
     conversations w' = conversations w @ take k [c] \<and>
     memberships w' = memberships w @ take (k - 1) [mA, mB] \<and>
     (1 \<le> k \<longrightarrow> c_createdBy c = u \<and> c_host c = u) \<and>
     (2 \<le> k \<longrightarrow>
        (\<exists>rel ua. findById w rid = Some rel \<and> userA rel = Some ua \<and>
                  m_user mA = user_id ua) \<and>
        m_conversation mA = c_id c \<and>
        m_role mA = (if m_user mA = u then HOST else MEMBER)) \<and>
     (3 \<le> k \<longrightarrow>
        (\<exists>rel ub. findById w rid = Some rel \<and> userB rel = Some ub \<and>
                  m_user mB = user_id ub) \<and>
        m_conversation mB = c_id c \<and>
        m_role mB = (if m_user mB = u then HOST else MEMBER)) \<and>
     (k < 4 \<longrightarrow> relationships w' = relationships w) \<and>
     (k = 4 \<longrightarrow>
        relationships w' =
          update_first (\<lambda>r. r_id r = rid)
            (\<lambda>r. r\<lparr> status := FRIENDS, privateConversation := Some (c_id c) \<rparr>)
            (relationships w) \<and>
        (\<exists>r0. find (\<lambda>r. r_id r = rid) (relationships w) = Some r0 \<and>
              find (\<lambda>r. r_id r = rid) (relationships w')
                = Some (r0\<lparr> status := FRIENDS, privateConversation := Some (c_id c) \<rparr>)) \<and>
        res = Inr (findById w' rid))"
  using cf
  proof (cases rule: confirmFriendship_cases)
    case 1
    then show ?thesis by (intro exI [of _ undefined] exI [of _ "0::nat"]) simp
  next
    case (2 rel)
    then show ?thesis by (intro exI [of _ undefined] exI [of _ "0::nat"]) simp
  next
    case (3 rel err)
    from confirmFriendship_try_prefix [OF 3(3)] obtain c mA mB k where
      h: "k \<le> 4 \<and>
     effects w' = effects w @ take k [ConversationCreated c, MembershipCreated mA,
                    MembershipCreated mB,
                    RelationshipUpdated rid
                      \<lparr> upd_userA = None, upd_userB = None, upd_status = Some FRIENDS,
                        upd_blockedAt = None,
                        upd_privateConversation = Some (Some (c_id c)) \<rparr>] \<and>
     ((\<exists>r. (Inl err :: exn + PopulatedRelationship option) = Inr r) \<longleftrightarrow> k = 4) \<and>
     users w' = users w \<and>
     conversations w' = conversations w @ take k [c] \<and>
     memberships w' = memberships w @ take (k - 1) [mA, mB] \<and>
     (1 \<le> k \<longrightarrow> c_createdBy c = u \<and> c_host c = u) \<and>
     (2 \<le> k \<longrightarrow> (\<exists>ua. userA rel = Some ua \<and> m_user mA = user_id ua) \<and>
                 m_conversation mA = c_id c \<and>
                 m_role mA = (if m_user mA = u then HOST else MEMBER)) \<and>
     (3 \<le> k \<longrightarrow> (\<exists>ub. userB rel = Some ub \<and> m_user mB = user_id ub) \<and>
                 m_conversation mB = c_id c \<and>
                 m_role mB = (if m_user mB = u then HOST else MEMBER)) \<and>
     (k < 4 \<longrightarrow> relationships w' = relationships w)"
      by (elim exE conjE) (rule that, intro conjI, assumption+)
    show ?thesis
      apply (rule exI [of _ c])
      apply (rule exI [of _ mA])
      apply (rule exI [of _ mB])
      apply (rule exI [of _ k])
      using h 3(1,4) by auto
  next
    case (4 rel r)
    from confirmFriendship_try_prefix [OF 4(3)] obtain c mA mB k where
      h: "k \<le> 4 \<and>
     effects w' = effects w @ take k [ConversationCreated c, MembershipCreated mA,
                    MembershipCreated mB,
                    RelationshipUpdated rid
                      \<lparr> upd_userA = None, upd_userB = None, upd_status = Some FRIENDS,
                        upd_blockedAt = None,
                        upd_privateConversation = Some (Some (c_id c)) \<rparr>] \<and>
     ((\<exists>r'. (Inr r :: exn + PopulatedRelationship option) = Inr r') \<longleftrightarrow> k = 4) \<and>
     users w' = users w \<and>
     conversations w' = conversations w @ take k [c] \<and>
     memberships w' = memberships w @ take (k - 1) [mA, mB] \<and>
     (1 \<le> k \<longrightarrow> c_createdBy c = u \<and> c_host c = u) \<and>
     (2 \<le> k \<longrightarrow> (\<exists>ua. userA rel = Some ua \<and> m_user mA = user_id ua) \<and>
                 m_conversation mA = c_id c \<and>
                 m_role mA = (if m_user mA = u then HOST else MEMBER)) \<and>
     (3 \<le> k \<longrightarrow> (\<exists>ub. userB rel = Some ub \<and> m_user mB = user_id ub) \<and>
                 m_conversation mB = c_id c \<and>
                 m_role mB = (if m_user mB = u then HOST else MEMBER)) \<and>
     (k < 4 \<longrightarrow> relationships w' = relationships w) \<and>
     (k = 4 \<longrightarrow>
        relationships w' =
          update_first (\<lambda>r. r_id r = rid)
            (\<lambda>r. r\<lparr> status := FRIENDS, privateConversation := Some (c_id c) \<rparr>)
            (relationships w) \<and>
        (\<exists>r0. find (\<lambda>r. r_id r = rid) (relationships w) = Some r0 \<and>
              find (\<lambda>r. r_id r = rid) (relationships w')
                = Some (r0\<lparr> status := FRIENDS, privateConversation := Some (c_id c) \<rparr>)) \<and>
        Inr r = (Inr (findById w' rid) :: exn + PopulatedRelationship option))"
      by (elim exE) (rule that, assumption)
    show ?thesis
      apply (rule exI [of _ c])
      apply (rule exI [of _ mA])
      apply (rule exI [of _ mB])
      apply (rule exI [of _ k])
      using h 4(1,4) by auto
  qed
  then show ?thesis by (simp add: cf)
qed

lemma confirm_sample_participant:
  "confirmFriendship env_indexed ''u2'' 1 (sample_world [sample_rel REQUEST_USER_A None]) =
    (Inr (Some \<lparr> r_id = 1, userA = Some \<lparr>user_id = ''u1''\<rparr>,
                  userB = Some \<lparr>user_id = ''u2''\<rparr>, status = FRIENDS,
                  blockedAt = None, privateConversation = Some 1 \<rparr>),
     \<lparr> users = [\<lparr>user_id = ''u1''\<rparr>, \<lparr>user_id = ''u2''\<rparr>, \<lparr>user_id = ''u3''\<rparr>],
       relationships = [\<lparr> r_id = 1, userA = ''u1'', userB = ''u2'', status = FRIENDS,
                          blockedAt = None, privateConversation = Some 1 \<rparr>],
       conversations = [\<lparr> c_id = 1, c_name = ''Private conversation [1]'',
                          c_description = ''Private conversation [1]'',
                          c_createdBy = ''u2'', c_host = ''u2'' \<rparr>],
       memberships = [\<lparr> m_id = 1, m_user = ''u1'', m_conversation = 1, m_role = MEMBER \<rparr>,
                      \<lparr> m_id = 2, m_user = ''u2'', m_conversation = 1, m_role = HOST \<rparr>],
       effects = [ConversationCreated \<lparr> c_id = 1, c_name = ''Private conversation [1]'',
                          c_description = ''Private conversation [1]'',
                          c_createdBy = ''u2'', c_host = ''u2'' \<rparr>,
                  MembershipCreated
                    \<lparr> m_id = 1, m_user = ''u1'', m_conversation = 1, m_role = MEMBER \<rparr>,
                  MembershipCreated
                    \<lparr> m_id = 2, m_user = ''u2'', m_conversation = 1, m_role = HOST \<rparr>,
                  RelationshipUpdated 1 (friends_patch 1)] \<rparr>)"
  by (simp add: eval_defs)

lemma sample_world_ids_distinct: "ids_distinct (sample_world [sample_rel st b])"
  by (simp add: ids_distinct_def sample_world_def)

theorem confirmFriendship_roles_witness:
  "confirmFriendship env_indexed ''u2'' 1 (sample_world [sample_rel FRIENDS None])
     = (Inl (BadRequestException ''Users are already friends''),
        sample_world [sample_rel FRIENDS None]) \<and>
   (\<exists>p (c :: Conversation) mA mB.
      fst (confirmFriendship env_indexed ''u2'' 1
             (sample_world [sample_rel REQUEST_USER_A None])) = Inr (Some p) \<and>
      status p = FRIENDS \<and> privateConversation p = Some (c_id c) \<and>
      memberships (snd (confirmFriendship env_indexed ''u2'' 1
             (sample_world [sample_rel REQUEST_USER_A None]))) = [mA, mB] \<and>
      m_conversation mA = c_id c \<and> m_conversation mB = c_id c \<and>
      m_user mA = ''u1'' \<and> m_role mA = MEMBER \<and> m_user mB = ''u2'' \<and> m_role mB = HOST)"
proof
  let ?w = "sample_world [sample_rel FRIENDS None]"
  have f: "findById ?w 1 = Some (populate ?w (sample_rel FRIENDS None)) \<and>
        status (populate ?w (sample_rel FRIENDS None)) = FRIENDS"
    by (simp add: findById_def sample_world_def sample_rel_def populate_def)
  from confirmFriendship_roles [of ?w 1 env_indexed "''u2''", THEN conjunct1, rule_format,
      OF f]
  show "confirmFriendship env_indexed ''u2'' 1 ?w
     = (Inl (BadRequestException ''Users are already friends''), ?w)" .
next
  let ?w = "sample_world [sample_rel REQUEST_USER_A None]"
  obtain res w' where c: "confirmFriendship env_indexed ''u2'' 1 ?w = (Inr res, w')"
    and ms: "memberships w'
       = [\<lparr> m_id = 1, m_user = ''u1'', m_conversation = 1, m_role = MEMBER \<rparr>,
          \<lparr> m_id = 2, m_user = ''u2'', m_conversation = 1, m_role = HOST \<rparr>]"
    unfolding confirm_sample_participant by simp
  have d: "ids_distinct ?w" by (rule sample_world_ids_distinct)
  have e: "memberships ?w = []" by (simp add: sample_world_def)
  from confirmFriendship_roles [of ?w 1 env_indexed "''u2''", THEN conjunct2, rule_format,
      OF conjI [OF d c]]
  obtain p and cv :: Conversation and mA mB where
    h: "res = Some p" "status p = FRIENDS" "privateConversation p = Some (c_id cv)"
      "m_conversation mA = c_id cv" "m_conversation mB = c_id cv"
      "memberships w' = memberships ?w @ [mA, mB]"
    by blast
  from h(6) ms e have m: "m_user mA = ''u1''" "m_role mA = MEMBER"
      "m_user mB = ''u2''" "m_role mB = HOST" "memberships w' = [mA, mB]"
    by auto
  show "\<exists>p (c :: Conversation) mA mB.
      fst (confirmFriendship env_indexed ''u2'' 1 ?w) = Inr (Some p) \<and>
      status p = FRIENDS \<and> privateConversation p = Some (c_id c) \<and>
      memberships (snd (confirmFriendship env_indexed ''u2'' 1 ?w)) = [mA, mB] \<and>
      m_conversation mA = c_id c \<and> m_conversation mB = c_id c \<and>
      m_user mA = ''u1'' \<and> m_role mA = MEMBER \<and> m_user mB = ''u2'' \<and> m_role mB = HOST"
    unfolding c
    apply (rule exI [of _ p])
    apply (rule exI [of _ cv])
    apply (rule exI [of _ mA])
    apply (rule exI [of _ mB])
    using h m by simp
qed

text \<open>
  Claim C2 as the spec states it fails in two places. A requester who is not a participant
  (\<open>u3\<close>) confirms the request between \<open>u1\<close> and \<open>u2\<close>: the call succeeds and
  both memberships are \<open>MEMBER\<close>, none is \<open>HOST\<close>. And on a record that exists with
  status \<open>FRIENDS\<close> but is blocked, the call fails with \<open>NotFoundException\<close>, not
  with \<open>BadRequestException\<close>.
\<close>

theorem confirmFriendship_roles_counterexample:
  "fst (confirmFriendship env_indexed ''u3'' 1
          (sample_world [sample_rel REQUEST_USER_A None]))
     = Inr (Some \<lparr> r_id = 1, userA = Some \<lparr>user_id = ''u1''\<rparr>,
                   userB = Some \<lparr>user_id = ''u2''\<rparr>, status = FRIENDS,
                   blockedAt = None, privateConversation = Some 1 \<rparr>) \<and>
   memberships (snd (confirmFriendship env_indexed ''u3'' 1
          (sample_world [sample_rel REQUEST_USER_A None])))
     = [\<lparr> m_id = 1, m_user = ''u1'', m_conversation = 1, m_role = MEMBER \<rparr>,
        \<lparr> m_id = 2, m_user = ''u2'', m_conversation = 1, m_role = MEMBER \<rparr>] \<and>
   status (sample_rel FRIENDS (Some 5)) = FRIENDS \<and>
   fst (confirmFriendship env_indexed ''u1'' 1 (sample_world [sample_rel FRIENDS (Some 5)]))
     = Inl (NotFoundException ''Relationship not found'')"
  by (simp add: eval_defs)

lemma confirm_sample_membership_down:
  "fst (confirmFriendship env_membership_down ''u2'' 1
          (sample_world [sample_rel REQUEST_USER_A None]))
     = Inl (InternalServerErrorException ''Failed to update relationship'')"
  by (simp add: eval_defs env_membership_down_def)

lemma confirm_sample_membership_down_effects:
  "effects (snd (confirmFriendship env_membership_down ''u2'' 1
          (sample_world [sample_rel REQUEST_USER_A None])))
     = [ConversationCreated \<lparr> c_id = 1, c_name = ''Private conversation [1]'',
                          c_description = ''Private conversation [1]'',
                          c_createdBy = ''u2'', c_host = ''u2'' \<rparr>]"
  by (simp add: eval_defs env_membership_down_def)

theorem confirmFriendship_effect_order_witness:
  "(\<exists>c mA mB.
     effects (snd (confirmFriendship env_indexed ''u2'' 1
                (sample_world [sample_rel REQUEST_USER_A None])))
       = [ConversationCreated c, MembershipCreated mA, MembershipCreated mB,
          RelationshipUpdated 1
            \<lparr> upd_userA = None, upd_userB = None, upd_status = Some FRIENDS,
              upd_blockedAt = None, upd_privateConversation = Some (Some (c_id c)) \<rparr>] \<and>
     m_conversation mA = c_id c \<and> m_conversation mB = c_id c \<and>
     relationships (snd (confirmFriendship env_indexed ''u2'' 1
                (sample_world [sample_rel REQUEST_USER_A None])))
       = [\<lparr> r_id = 1, userA = ''u1'', userB = ''u2'', status = FRIENDS,
            blockedAt = None, privateConversation = Some (c_id c) \<rparr>]) \<and>
   relationships (snd (confirmFriendship env_membership_down ''u2'' 1
                (sample_world [sample_rel REQUEST_USER_A None])))
     = [sample_rel REQUEST_USER_A None]"
proof
  let ?w = "sample_world [sample_rel REQUEST_USER_A None]"
  let ?s = "confirmFriendship env_indexed ''u2'' 1 ?w"
  from confirmFriendship_effect_order [of env_indexed "''u2''" 1 ?w]
  obtain c mA mB and k :: nat where
    e: "effects (snd ?s)
          = effects ?w @ take k [ConversationCreated c, MembershipCreated mA,
              MembershipCreated mB,
              RelationshipUpdated 1
                \<lparr> upd_userA = None, upd_userB = None, upd_status = Some FRIENDS,
                  upd_blockedAt = None,
                  upd_privateConversation = Some (Some (c_id c)) \<rparr>]"
    and k: "(\<exists>r. fst ?s = Inr r) \<longleftrightarrow> k = 4"
    and a: "2 \<le> k \<longrightarrow>
        (\<exists>rel ua. findById ?w 1 = Some rel \<and> userA rel = Some ua \<and>
                  m_user mA = user_id ua) \<and>
        m_conversation mA = c_id c \<and>
        m_role mA = (if m_user mA = ''u2'' then HOST else MEMBER)"
    and b: "3 \<le> k \<longrightarrow>
        (\<exists>rel ub. findById ?w 1 = Some rel \<and> userB rel = Some ub \<and>
                  m_user mB = user_id ub) \<and>
        m_conversation mB = c_id c \<and>
        m_role mB = (if m_user mB = ''u2'' then HOST else MEMBER)"
    and r: "k = 4 \<longrightarrow>
        relationships (snd ?s) =
          update_first (\<lambda>r. r_id r = 1)
            (\<lambda>r. r\<lparr> status := FRIENDS, privateConversation := Some (c_id c) \<rparr>)
            (relationships ?w) \<and>
        (\<exists>r0. find (\<lambda>r. r_id r = 1) (relationships ?w) = Some r0 \<and>
              find (\<lambda>r. r_id r = 1) (relationships (snd ?s))
                = Some (r0\<lparr> status := FRIENDS, privateConversation := Some (c_id c) \<rparr>)) \<and>
        fst ?s = Inr (findById (snd ?s) 1)"
    by (elim exE conjE) (rule that)
  have "\<exists>r. fst ?s = Inr r"
    unfolding confirm_sample_participant by simp
  with k have k4: "k = 4" by simp
  from e k4 have e': "effects (snd ?s)
       = [ConversationCreated c, MembershipCreated mA, MembershipCreated mB,
          RelationshipUpdated 1
            \<lparr> upd_userA = None, upd_userB = None, upd_status = Some FRIENDS,
              upd_blockedAt = None, upd_privateConversation = Some (Some (c_id c)) \<rparr>]"
    by (simp add: sample_world_def)
  from a b k4 have m: "m_conversation mA = c_id c" "m_conversation mB = c_id c"
    by simp_all
  from r k4 have "relationships (snd ?s) =
          update_first (\<lambda>r. r_id r = 1)
            (\<lambda>r. r\<lparr> status := FRIENDS, privateConversation := Some (c_id c) \<rparr>)
            (relationships ?w)"
    by simp
  then have r': "relationships (snd ?s)
       = [\<lparr> r_id = 1, userA = ''u1'', userB = ''u2'', status = FRIENDS,
            blockedAt = None, privateConversation = Some (c_id c) \<rparr>]"
    by (simp add: sample_world_def sample_rel_def)
  from e' m r' show "\<exists>c mA mB.
     effects (snd ?s)
       = [ConversationCreated c, MembershipCreated mA, MembershipCreated mB,
          RelationshipUpdated 1
            \<lparr> upd_userA = None, upd_userB = None, upd_status = Some FRIENDS,
              upd_blockedAt = None, upd_privateConversation = Some (Some (c_id c)) \<rparr>] \<and>
     m_conversation mA = c_id c \<and> m_conversation mB = c_id c \<and>
     relationships (snd ?s)
       = [\<lparr> r_id = 1, userA = ''u1'', userB = ''u2'', status = FRIENDS,
            blockedAt = None, privateConversation = Some (c_id c) \<rparr>]"
    by (intro exI conjI)
next
  let ?w = "sample_world [sample_rel REQUEST_USER_A None]"
  from confirmFriendship_effect_order [of env_membership_down "''u2''" 1 ?w]
  obtain k :: nat where
    k: "(\<exists>r. fst (confirmFriendship env_membership_down ''u2'' 1 ?w) = Inr r) \<longleftrightarrow> k = 4"
    and le: "k \<le> 4"
    and r: "k < 4 \<longrightarrow>
       relationships (snd (confirmFriendship env_membership_down ''u2'' 1 ?w))
         = relationships ?w"
    by (elim exE conjE) (rule that)
  have "\<not> (\<exists>r. fst (confirmFriendship env_membership_down ''u2'' 1 ?w) = Inr r)"
    unfolding confirm_sample_membership_down by simp
  with k le have "k < 4" by simp
  with r show "relationships (snd (confirmFriendship env_membership_down ''u2'' 1 ?w))
     = [sample_rel REQUEST_USER_A None]"
    by (simp add: sample_world_def)
qed

section \<open>Guards of \<open>create\<close>\<close>

text \<open>
  Claim C7. When the two users of the request are distinct and exist, and the pair has no
  record or a record in state \<open>AWAY\<close>, a request whose status is neither
  \<open>REQUEST_USER_A\<close> nor \<open>REQUEST_USER_B\<close> (for instance \<open>FRIENDS\<close>) fails with
  \<open>BadRequestException\<close>, and the stores are unchanged: nothing is persisted.
\<close>

theorem create_rejects_other_status:
  assumes "dto_userA payload \<noteq> dto_userB payload"
    and "userService_findById w (dto_userA payload) \<noteq> None"
    and "userService_findById w (dto_userB payload) \<noteq> None"
    and "findByUserIds w (dto_userA payload) (dto_userB payload) = None \<or>
         (\<exists>r. findByUserIds w (dto_userA payload) (dto_userB payload) = Some r \<and>
              status r = AWAY)"
    and "dto_status payload \<noteq> REQUEST_USER_A" and "dto_status payload \<noteq> REQUEST_USER_B"
  shows "create e requestedUserId payload w =
           (Inl (BadRequestException
                   ''Relationship status must be REQUEST_USER_A or REQUEST_USER_B''), w)"
proof -
  from assms(2) obtain ua where ua: "userService_findById w (dto_userA payload) = Some ua"
    by auto
  from assms(3) obtain ub where ub: "userService_findById w (dto_userB payload) = Some ub"
    by auto
  note ida = userService_findById_id [OF ua] and idb = userService_findById_id [OF ub]
  from assms(4) have "\<not> (case findByUserIds w (user_id ua) (user_id ub) of
            None \<Rightarrow> False | Some existed \<Rightarrow> status existed \<noteq> AWAY)"
    by (auto simp: ida idb)
  with assms(1,5,6) ua ub show ?thesis
    by (simp add: create_def)
qed

theorem create_rejects_other_status_witness:
  "create env_indexed ''u1''
     \<lparr> dto_userA = ''u1'', dto_userB = ''u2'', dto_status = FRIENDS \<rparr> (sample_world [])
   = (Inl (BadRequestException
             ''Relationship status must be REQUEST_USER_A or REQUEST_USER_B''),
      sample_world [])"
  by (rule create_rejects_other_status)
     (simp_all add: userService_findById_def findByUserIds_def sample_world_def)

lemma create_existing_not_away:
  assumes "dto_userA payload \<noteq> dto_userB payload"
    and "userService_findById w (dto_userA payload) \<noteq> None"
    and "userService_findById w (dto_userB payload) \<noteq> None"
    and "findByUserIds w (dto_userA payload) (dto_userB payload) = Some r"
    and "status r \<noteq> AWAY"
  shows "create e requestedUserId payload w =
           (Inl (BadRequestException ''Relationship existed''), w)"
proof -
  from assms(2) obtain ua where ua: "userService_findById w (dto_userA payload) = Some ua"
    by auto
  from assms(3) obtain ub where ub: "userService_findById w (dto_userB payload) = Some ub"
    by auto
  note ida = userService_findById_id [OF ua] and idb = userService_findById_id [OF ub]
  from assms(1,4,5) ua ub show ?thesis
    by (simp add: create_def ida idb)
qed

lemma findByUserIds_SomeD:
  assumes "findByUserIds w a b = Some r"
  shows "r \<in> set (relationships w)"
    and "userA r = (if a \<le> b then a else b)" and "userB r = (if a \<le> b then b else a)"
  using assms by (auto simp: findByUserIds_def split: if_splits dest: find_SomeD)

lemma create_existing_away_indexed:
  assumes "dto_userA payload \<noteq> dto_userB payload"
    and "userService_findById w (dto_userA payload) \<noteq> None"
    and "userService_findById w (dto_userB payload) \<noteq> None"
    and "findByUserIds w (dto_userA payload) (dto_userB payload) = Some r"
    and "status r = AWAY"
    and "dto_status payload = REQUEST_USER_A \<or> dto_status payload = REQUEST_USER_B"
    and "pair_unique e"
  shows "create e requestedUserId payload w =
           (Inl (InternalServerErrorException ''Failed to create relationship''), w)"
proof -
  from assms(2) obtain ua where ua: "userService_findById w (dto_userA payload) = Some ua"
    by auto
  from assms(3) obtain ub where ub: "userService_findById w (dto_userB payload) = Some ub"
    by auto
  note ida = userService_findById_id [OF ua] and idb = userService_findById_id [OF ub]
  note r = findByUserIds_SomeD [OF assms(4)]
  show ?thesis
  proof (cases "dto_userA payload \<le> dto_userB payload")
    case True
    with r have "list_ex (\<lambda>r. userA r = dto_userA payload \<and> userB r = dto_userB payload)
                   (relationships w)"
      by (auto simp: list_ex_iff)
    with assms(7) have "save e (dto_userA payload) (dto_userB payload) (dto_status payload) w
            = (Inl MongoServerError, w)"
      by (simp add: save_def)
    with assms(1,4,5,6) ua ub True show ?thesis
      by (auto simp: create_def ida idb)
  next
    case False
    with r have "list_ex (\<lambda>r. userA r = dto_userB payload \<and> userB r = dto_userA payload)
                   (relationships w)"
      by (auto simp: list_ex_iff)
    with assms(7) have "save e (dto_userB payload) (dto_userA payload) (dto_status payload) w
            = (Inl MongoServerError, w)"
      by (simp add: save_def)
    with assms(1,4,5,6) ua ub False show ?thesis
      by (auto simp: create_def ida idb)
  qed
qed

text \<open>
  Claim C3. The first half holds (\<open>create_existing_not_away\<close>): an existing record
  that is not \<open>AWAY\<close> makes \<open>create\<close> fail with
  \<open>BadRequestException ''Relationship existed''\<close>. The second half does not hold on a
  store with the uniqueness constraint over the pair that the spec describes: the guard
  lets the \<open>AWAY\<close> record pass, but \<open>create\<close> then inserts a second document for the
  same pair, the store refuses it, and the call fails with
  \<open>InternalServerErrorException\<close> (\<open>create_existing_away_indexed\<close>). Evaluated on
  users \<open>u1\<close>, \<open>u2\<close> with one \<open>AWAY\<close> record:
\<close>

theorem create_over_away_sample:
  "findByUserIds (sample_world [sample_rel AWAY None]) ''u1'' ''u2''
     = Some (sample_rel AWAY None) \<and>
   create env_indexed ''u1''
     \<lparr> dto_userA = ''u1'', dto_userB = ''u2'', dto_status = REQUEST_USER_A \<rparr>
     (sample_world [sample_rel AWAY None])
   = (Inl (InternalServerErrorException ''Failed to create relationship''),
      sample_world [sample_rel AWAY None])"
  by (simp add: eval_defs)

text \<open>Without the constraint the call succeeds and leaves two records for the pair.\<close>

lemma create_over_away_unindexed_sample:
  "relationships (snd (create env_plain ''u1''
     \<lparr> dto_userA = ''u1'', dto_userB = ''u2'', dto_status = REQUEST_USER_A \<rparr>
     (sample_world [sample_rel AWAY None])))
   = [sample_rel AWAY None,
      \<lparr> r_id = 2, userA = ''u1'', userB = ''u2'', status = REQUEST_USER_A,
        blockedAt = None, privateConversation = None \<rparr>]"
  by (simp add: eval_defs)

text \<open>
  Claim C5, as amended. When \<open>create\<close> is called with the users swapped relative to the
  canonical order and succeeds, the stored record holds the users in canonical order and
  the status of the request unchanged: the status is not re-mapped to the new slots. Read
  against the stored slots, it therefore names the other user as initiator.
\<close>

theorem create_keeps_status:
  assumes "create e requestedUserId payload w = (Inr res, w')"
    and "\<not> dto_userA payload \<le> dto_userB payload"
  shows "\<exists>r. relationships w' = relationships w @ [r] \<and>
             userA r = dto_userB payload \<and> userB r = dto_userA payload \<and>
             status r = dto_status payload \<and>
             spec_initiator (status r) (userA r) (userB r)
               \<noteq> spec_initiator (dto_status payload) (dto_userA payload) (dto_userB payload)"
proof -
  from assms(1) obtain ua ub data where
    ne: "dto_userA payload \<noteq> dto_userB payload" and
    ua: "userService_findById w (dto_userA payload) = Some ua" and
    ub: "userService_findById w (dto_userB payload) = Some ub" and
    st: "dto_status payload = REQUEST_USER_A \<or> dto_status payload = REQUEST_USER_B" and
    sv: "(if dto_userA payload \<le> dto_userB payload
          then save e (user_id ua) (user_id ub) (dto_status payload) w
          else save e (user_id ub) (user_id ua) (dto_status payload) w) = (Inr data, w')"
    by (rule create_cases)
  note ida = userService_findById_id [OF ua] and idb = userService_findById_id [OF ub]
  from sv assms(2)
  have "save e (user_id ub) (user_id ua) (dto_status payload) w = (Inr data, w')" by simp
  from save_result [OF this] ida idb ne st show ?thesis
    by (auto simp: spec_initiator_def)
qed

theorem create_keeps_status_witness:
  "\<exists>r. relationships (snd (create env_indexed ''u1''
          \<lparr> dto_userA = ''u2'', dto_userB = ''u1'', dto_status = REQUEST_USER_B \<rparr>
          (sample_world []))) = [r] \<and>
        userA r = ''u1'' \<and> userB r = ''u2'' \<and> status r = REQUEST_USER_B"
proof -
  note c = create_swapped_sample
  have "\<not> dto_userA \<lparr> dto_userA = ''u2'', dto_userB = ''u1'', dto_status = REQUEST_USER_B \<rparr>
          \<le> dto_userB \<lparr> dto_userA = ''u2'', dto_userB = ''u1'', dto_status = REQUEST_USER_B \<rparr>"
    by simp
  from create_keeps_status [OF c this] obtain r where
    "relationships ((sample_world [sample_rel REQUEST_USER_B None])
          \<lparr> effects := [RelationshipSaved (sample_rel REQUEST_USER_B None)] \<rparr>)
        = relationships (sample_world []) @ [r]"
    "userA r = ''u1''" "userB r = ''u2''" "status r = REQUEST_USER_B"
    by auto
  then show ?thesis
    unfolding c by (simp add: sample_world_def)
qed

text \<open>
  Claim C5 as the spec states it fails in its own scenario: the request names \<open>u1\<close>
  (its \<open>userB\<close>) as initiator, the stored record names \<open>u2\<close> (its \<open>userB\<close>).
\<close>

theorem create_remap_counterexample:
  "relationships (snd (create env_indexed ''u1''
          \<lparr> dto_userA = ''u2'', dto_userB = ''u1'', dto_status = REQUEST_USER_B \<rparr>
          (sample_world [])))
     = [\<lparr> r_id = 1, userA = ''u1'', userB = ''u2'', status = REQUEST_USER_B,
          blockedAt = None, privateConversation = None \<rparr>] \<and>
   spec_initiator REQUEST_USER_B ''u2'' ''u1'' = Some ''u1'' \<and>
   spec_initiator REQUEST_USER_B ''u1'' ''u2'' = Some ''u2''"
  unfolding create_swapped_sample
  by (simp add: sample_world_def sample_rel_def spec_initiator_def)

section \<open>Blocking\<close>

lemma status_patch_users [simp]:
  "upd_userA (status_patch st) = None" "upd_userB (status_patch st) = None"
  by (simp_all add: status_patch_def no_update_def)

lemma apply_status_patch [simp]: "apply_update (status_patch st) r = r\<lparr> status := st \<rparr>"
  by (simp add: apply_update_def status_patch_def no_update_def)

lemma blockUser_cases:
  assumes "blockUser e requestedUser dto w = (Inr res, w')"
  obtains rel data where
    "userService_findById w (blockedBy dto) \<noteq> None" "blockedBy dto = requestedUser"
    "userService_findById w (targetUser dto) \<noteq> None"
    "findByUserIds w (blockedBy dto) (targetUser dto) = Some rel" "blockedAt rel = None"
    "findByIdAndUpdate e (r_id rel)
       (status_patch (if blockedBy dto = userA rel then BLOCKED_USER_A else BLOCKED_USER_B)) w
       = (Inr (Some data), w')"
    "res = findById w' (r_id data)"
  using assms
  by (auto simp: blockUser_def split: option.splits if_splits sum.splits prod.splits)

text \<open>
  Claim C6. Every successful \<open>blockUser\<close> has found the record of the pair, not yet
  blocked, and has set its status to \<open>BLOCKED_USER_A\<close> if the blocking user is the
  record's stored \<open>userA\<close> and to \<open>BLOCKED_USER_B\<close> otherwise; this is the status of
  the record in the store afterwards and of the record returned.
\<close>

theorem blockUser_status:
  assumes "blockUser e requestedUser dto w = (Inr res, w')" and "ids_distinct w"
  shows "\<exists>rel p. findByUserIds w (blockedBy dto) (targetUser dto) = Some rel \<and>
           blockedAt rel = None \<and>
           res = Some p \<and> r_id p = r_id rel \<and>
           status p = (if blockedBy dto = userA rel then BLOCKED_USER_A else BLOCKED_USER_B) \<and>
           find (\<lambda>r. r_id r = r_id rel) (relationships w')
             = Some (rel\<lparr> status := (if blockedBy dto = userA rel
                                        then BLOCKED_USER_A else BLOCKED_USER_B) \<rparr>)"
proof -
  from assms(1) obtain rel data where
    rel: "findByUserIds w (blockedBy dto) (targetUser dto) = Some rel" and
    nb: "blockedAt rel = None" and
    up: "findByIdAndUpdate e (r_id rel)
       (status_patch (if blockedBy dto = userA rel then BLOCKED_USER_A else BLOCKED_USER_B)) w
       = (Inr (Some data), w')" and
    res: "res = findById w' (r_id data)"
    by (rule blockUser_cases)
  let ?st = "if blockedBy dto = userA rel then BLOCKED_USER_A else BLOCKED_USER_B"
  have mem: "rel \<in> set (relationships w)" by (rule findByUserIds_SomeD(1) [OF rel])
  from findByIdAndUpdate_result [OF assms(2) mem, of "status_patch ?st" e] up
  have data: "data = rel\<lparr> status := ?st \<rparr>" and
    rs: "relationships w' =
           update_first (\<lambda>x. r_id x = r_id rel) (apply_update (status_patch ?st))
             (relationships w)" and
    us: "users w' = users w" and d': "ids_distinct w'" and
    mem': "rel\<lparr> status := ?st \<rparr> \<in> set (relationships w')"
    by auto
  from findById_after_update [OF assms(2) mem us rs] nb
  have "findById w' (r_id rel) = Some (populate w (rel\<lparr> status := ?st \<rparr>))" by simp
  with res data have p: "res = Some (populate w (rel\<lparr> status := ?st \<rparr>))" by simp
  from find_id_distinct [OF d' [unfolded ids_distinct_def] mem']
  have f: "find (\<lambda>r. r_id r = r_id rel) (relationships w') = Some (rel\<lparr> status := ?st \<rparr>)"
    by simp
  show ?thesis
    by (intro exI [of _ rel] exI [of _ "populate w (rel\<lparr> status := ?st \<rparr>)"])
       (simp add: rel nb p f populate_def)
qed

lemma block_sample:
  "blockUser env_indexed ''u2'' \<lparr> blockedBy = ''u2'', targetUser = ''u1'' \<rparr>
     (sample_world [sample_rel FRIENDS None])
   = (Inr (Some \<lparr> r_id = 1, userA = Some \<lparr>user_id = ''u1''\<rparr>,
                  userB = Some \<lparr>user_id = ''u2''\<rparr>, status = BLOCKED_USER_B,
                  blockedAt = None, privateConversation = None \<rparr>),
      (sample_world [sample_rel BLOCKED_USER_B None])
        \<lparr> effects := [RelationshipUpdated 1 (status_patch BLOCKED_USER_B)] \<rparr>)"
  by (simp add: eval_defs)

theorem blockUser_status_witness:
  "\<exists>p. fst (blockUser env_indexed ''u2'' \<lparr> blockedBy = ''u2'', targetUser = ''u1'' \<rparr>
              (sample_world [sample_rel FRIENDS None])) = Inr (Some p) \<and>
        status p = BLOCKED_USER_B"
proof -
  let ?w = "sample_world [sample_rel FRIENDS None]"
  have f: "findByUserIds ?w ''u2'' ''u1'' = Some (sample_rel FRIENDS None)"
    by (simp add: findByUserIds_def sample_world_def sample_rel_def)
  from blockUser_status [OF block_sample sample_world_ids_distinct]
  obtain rel p where
    h: "findByUserIds ?w (blockedBy \<lparr> blockedBy = ''u2'', targetUser = ''u1'' \<rparr>)
          (targetUser \<lparr> blockedBy = ''u2'', targetUser = ''u1'' \<rparr>) = Some rel"
      "Some \<lparr> r_id = 1, userA = Some \<lparr>user_id = ''u1''\<rparr>,
                  userB = Some \<lparr>user_id = ''u2''\<rparr>, status = BLOCKED_USER_B,
                  blockedAt = None, privateConversation = None \<rparr> = Some p"
      "status p = (if blockedBy \<lparr> blockedBy = ''u2'', targetUser = ''u1'' \<rparr> = userA rel
                   then BLOCKED_USER_A else BLOCKED_USER_B)"
    by (elim exE conjE)
  from h(1) f have "rel = sample_rel FRIENDS None" by simp
  with h(3) have "status p = BLOCKED_USER_B" by (simp add: sample_rel_def)
  with h(2) show ?thesis unfolding block_sample by auto
qed


lemma update_first_blockedAt:
  "map blockedAt (update_first P (apply_update (status_patch st)) rs) = map blockedAt rs"
  by (induction rs) auto

lemma blockUser_keeps_blockedAt:
  assumes "blockUser e requestedUser dto w = (res, w')"
  shows "map blockedAt (relationships w') = map blockedAt (relationships w)"
  using assms
  by (auto simp: blockUser_def findByIdAndUpdate_def update_first_blockedAt
      split: option.splits if_splits sum.splits prod.splits)

text \<open>
  Claim C4. \<open>blockUser\<close> tests \<open>blockedAt\<close> to refuse a second block, but no call
  of it ever sets \<open>blockedAt\<close> (\<open>blockUser_keeps_blockedAt\<close>): it updates the status
  only. On users \<open>u1\<close>, \<open>u2\<close> with one record, the first call by \<open>u2\<close> succeeds and
  leaves \<open>blockedAt\<close> null, and the second, identical call succeeds again instead of
  failing with \<open>BadRequestException ''Relationship is already blocked''\<close>.
\<close>

theorem blockUser_twice_sample:
  "blockUser env_indexed ''u2'' \<lparr> blockedBy = ''u2'', targetUser = ''u1'' \<rparr>
     (sample_world [sample_rel FRIENDS None])
   = (Inr (Some \<lparr> r_id = 1, userA = Some \<lparr>user_id = ''u1''\<rparr>,
                  userB = Some \<lparr>user_id = ''u2''\<rparr>, status = BLOCKED_USER_B,
                  blockedAt = None, privateConversation = None \<rparr>),
      (sample_world [sample_rel BLOCKED_USER_B None])
        \<lparr> effects := [RelationshipUpdated 1 (status_patch BLOCKED_USER_B)] \<rparr>) \<and>
   fst (blockUser env_indexed ''u2'' \<lparr> blockedBy = ''u2'', targetUser = ''u1'' \<rparr>
     ((sample_world [sample_rel BLOCKED_USER_B None])
        \<lparr> effects := [RelationshipUpdated 1 (status_patch BLOCKED_USER_B)] \<rparr>))
   = Inr (Some \<lparr> r_id = 1, userA = Some \<lparr>user_id = ''u1''\<rparr>,
                  userB = Some \<lparr>user_id = ''u2''\<rparr>, status = BLOCKED_USER_B,
                  blockedAt = None, privateConversation = None \<rparr>)"
  by (simp add: eval_defs)


section \<open>Blocked relationships\<close>

text \<open>
  Claim C10. A record of the store whose \<open>blockedAt\<close> is not null is invisible to the
  operations that take its identifier: \<open>findById\<close> returns null, and
  \<open>findMyRelationship\<close>, \<open>confirmFriendship\<close> and \<open>update\<close> fail with
  \<open>NotFoundException\<close>, leaving the stores, and so the record, as they were.
\<close>

theorem blocked_is_hidden:
  assumes "r \<in> set (relationships w)" and "blockedAt r \<noteq> None" and "ids_distinct w"
  shows "findById w (r_id r) = None \<and>
         findMyRelationship w (r_id r) requestedUser
           = Inl (NotFoundException ''Relationship not found'') \<and>
         confirmFriendship e requestedUser (r_id r) w
           = (Inl (NotFoundException ''Relationship not found''), w) \<and>
         update e (r_id r) updateRelationshipDto requestedUser w
           = (Inl (NotFoundException ''Relationship not found''), w)"
proof -
  from findById_distinct [OF assms(3,1)] assms(2)
  have "findById w (r_id r) = None" by simp
  then show ?thesis
    by (simp add: findMyRelationship_def confirmFriendship_def update_def)
qed

theorem blocked_is_hidden_witness:
  "sample_rel FRIENDS (Some 5) \<in> set (relationships (sample_world [sample_rel FRIENDS (Some 5)])) \<and>
   findById (sample_world [sample_rel FRIENDS (Some 5)]) 1 = None \<and>
   findMyRelationship (sample_world [sample_rel FRIENDS (Some 5)]) 1 ''u1''
     = Inl (NotFoundException ''Relationship not found'') \<and>
   confirmFriendship env_indexed ''u1'' 1 (sample_world [sample_rel FRIENDS (Some 5)])
     = (Inl (NotFoundException ''Relationship not found''),
        sample_world [sample_rel FRIENDS (Some 5)]) \<and>
   update env_indexed 1 (status_patch AWAY) ''u1'' (sample_world [sample_rel FRIENDS (Some 5)])
     = (Inl (NotFoundException ''Relationship not found''),
        sample_world [sample_rel FRIENDS (Some 5)])"
proof -
  let ?r = "sample_rel FRIENDS (Some 5)"
  let ?w = "sample_world [?r]"
  have m: "?r \<in> set (relationships ?w)" by (simp add: sample_world_def)
  have b: "blockedAt ?r \<noteq> None" by (simp add: sample_rel_def)
  have i: "r_id ?r = 1" by (simp add: sample_rel_def)
  from blocked_is_hidden [OF m b sample_world_ids_distinct,
      of "''u1''" env_indexed "status_patch AWAY"] m
  show ?thesis unfolding i by simp
qed

section \<open>Listing\<close>

lemma toLowerCase_char_other:
  "c \<notin> set ''ABCDEFGHIJKLMNOPQRSTUVWXYZ'' \<Longrightarrow> toLowerCase_char c = c"
proof -
  assume "c \<notin> set ''ABCDEFGHIJKLMNOPQRSTUVWXYZ''"
  then have "map_of (zip ''ABCDEFGHIJKLMNOPQRSTUVWXYZ'' ''abcdefghijklmnopqrstuvwxyz'') c = None"
    by (subst map_of_zip_is_None) simp_all
  then show ?thesis by (simp only: toLowerCase_char_def option.case)
qed

lemma toUpperCase_char_other:
  "c \<notin> set ''abcdefghijklmnopqrstuvwxyz'' \<Longrightarrow> toUpperCase_char c = c"
proof -
  assume "c \<notin> set ''abcdefghijklmnopqrstuvwxyz''"
  then have "map_of (zip ''abcdefghijklmnopqrstuvwxyz'' ''ABCDEFGHIJKLMNOPQRSTUVWXYZ'') c = None"
    by (subst map_of_zip_is_None) simp_all
  then show ?thesis by (simp only: toUpperCase_char_def option.case)
qed

lemma toUpperCase_char_toLowerCase_char [simp]:
  "toUpperCase_char (toLowerCase_char c) = toUpperCase_char c"
proof (cases "c \<in> set ''ABCDEFGHIJKLMNOPQRSTUVWXYZ''")
  case True
  then have "c = CHR ''A'' \<or> c = CHR ''B'' \<or> c = CHR ''C'' \<or> c = CHR ''D'' \<or> c = CHR ''E'' \<or>
    c = CHR ''F'' \<or> c = CHR ''G'' \<or> c = CHR ''H'' \<or> c = CHR ''I'' \<or> c = CHR ''J'' \<or>
    c = CHR ''K'' \<or> c = CHR ''L'' \<or> c = CHR ''M'' \<or> c = CHR ''N'' \<or> c = CHR ''O'' \<or>
    c = CHR ''P'' \<or> c = CHR ''Q'' \<or> c = CHR ''R'' \<or> c = CHR ''S'' \<or> c = CHR ''T'' \<or>
    c = CHR ''U'' \<or> c = CHR ''V'' \<or> c = CHR ''W'' \<or> c = CHR ''X'' \<or> c = CHR ''Y'' \<or>
    c = CHR ''Z''"
    by simp
  then show ?thesis
    by (elim disjE) (simp_all add: toUpperCase_char_def toLowerCase_char_def)
next
  case False
  from toLowerCase_char_other [OF this] show ?thesis by (simp only:)
qed

lemma toUpperCase_char_idem [simp]:
  "toUpperCase_char (toUpperCase_char c) = toUpperCase_char c"
proof (cases "c \<in> set ''abcdefghijklmnopqrstuvwxyz''")
  case True
  then have "c = CHR ''a'' \<or> c = CHR ''b'' \<or> c = CHR ''c'' \<or> c = CHR ''d'' \<or> c = CHR ''e'' \<or>
    c = CHR ''f'' \<or> c = CHR ''g'' \<or> c = CHR ''h'' \<or> c = CHR ''i'' \<or> c = CHR ''j'' \<or>
    c = CHR ''k'' \<or> c = CHR ''l'' \<or> c = CHR ''m'' \<or> c = CHR ''n'' \<or> c = CHR ''o'' \<or>
    c = CHR ''p'' \<or> c = CHR ''q'' \<or> c = CHR ''r'' \<or> c = CHR ''s'' \<or> c = CHR ''t'' \<or>
    c = CHR ''u'' \<or> c = CHR ''v'' \<or> c = CHR ''w'' \<or> c = CHR ''x'' \<or> c = CHR ''y'' \<or>
    c = CHR ''z''"
    by simp
  then show ?thesis
    by (elim disjE) (simp_all add: toUpperCase_char_def)
next
  case False
  from toUpperCase_char_other [OF this] show ?thesis by (simp only:)
qed

lemma toUpperCase_toLowerCase [simp]: "toUpperCase (toLowerCase s) = toUpperCase s"
  by (simp add: toUpperCase_def toLowerCase_def)

lemma toUpperCase_idem [simp]: "toUpperCase (toUpperCase s) = toUpperCase s"
  by (simp add: toUpperCase_def)

lemma findAll_filter_upper:
  "findAll_filter userId (toUpperCase st) = findAll_filter userId st"
  "findAll_filter userId (toLowerCase st) = findAll_filter userId st"
  by (rule ext, simp add: findAll_filter_def)+

lemma set_insort_by: "set (insort_by le x xs) = insert x (set xs)"
  by (induction xs) auto

lemma set_sort_by: "set (sort_by le xs) = set xs"
  by (induction xs) (simp_all add: sort_by_def set_insort_by)

lemma set_sort_docs: "set (sort_docs f asc xs) = set xs"
  by (simp add: sort_docs_def set_sort_by)

lemma set_limit: "set (limit n xs) \<subseteq> set xs"
  by (auto simp: limit_def dest: in_set_takeD)

text \<open>
  Claim C9. For every participant, page, page size and sort arguments, the listing with
  the lower-case form of a status filter is the listing with its upper-case form (and the
  listing with the filter as given): the filter is matched case-insensitively. Every
  record a listing returns is the populated form of a stored record that has the
  participant in one of its two user slots, whose \<open>blockedAt\<close> is null, and whose
  status is the filter in upper case.
\<close>

theorem findAll_status_case_insensitive:
  "findAll w userId page sz sortBy orderBy (toLowerCase st)
     = findAll w userId page sz sortBy orderBy (toUpperCase st) \<and>
   findAll w userId page sz sortBy orderBy st
     = findAll w userId page sz sortBy orderBy (toUpperCase st) \<and>
   (\<forall>l. findAll w userId page sz sortBy orderBy st = Inr l \<longrightarrow>
      (\<forall>p \<in> set (l_data l). blockedAt p = None \<and>
         (\<exists>r \<in> set (relationships w). p = populate w r \<and>
            (userA r = userId \<or> userB r = userId) \<and> blockedAt r = None \<and>
            status_value (status r) = toUpperCase st)))"
proof (intro conjI allI impI ballI)
  show "findAll w userId page sz sortBy orderBy (toLowerCase st)
     = findAll w userId page sz sortBy orderBy (toUpperCase st)"
    unfolding findAll_def findAll_filter_upper by (rule refl)
  show "findAll w userId page sz sortBy orderBy st
     = findAll w userId page sz sortBy orderBy (toUpperCase st)"
    unfolding findAll_def findAll_filter_upper by (rule refl)
next
  fix l p
  assume l: "findAll w userId page sz sortBy orderBy st = Inr l" and p: "p \<in> set (l_data l)"
  define k where "k = (page - 1) * sz"
  define docs where "docs = limit sz (drop (nat k)
                 (sort_docs sortBy (toLowerCase orderBy = ''asc'')
                    (filter (findAll_filter userId st) (relationships w))))"
  have fa: "findAll w userId page sz sortBy orderBy st =
              (if k < 0 then Inl MongoServerError
               else Inr \<lparr> l_data = map (populate w) docs, l_page = page, l_size = sz,
                          l_count = length (map (populate w) docs) \<rparr>)"
    unfolding findAll_def Let_def k_def docs_def by (rule refl)
  have "l_data l = map (populate w) docs"
  proof (cases "k < 0")
    case True
    with l fa show ?thesis by simp
  next
    case False
    with l fa have "l = \<lparr> l_data = map (populate w) docs, l_page = page, l_size = sz,
                          l_count = length (map (populate w) docs) \<rparr>"
      by simp
    then show ?thesis by simp
  qed
  with p obtain r where r: "r \<in> set docs" and pr: "p = populate w r" by auto
  from r have "r \<in> set (drop (nat k)
                 (sort_docs sortBy (toLowerCase orderBy = ''asc'')
                    (filter (findAll_filter userId st) (relationships w))))"
    unfolding docs_def by (rule subsetD [OF set_limit])
  then have "r \<in> set (sort_docs sortBy (toLowerCase orderBy = ''asc'')
                    (filter (findAll_filter userId st) (relationships w)))"
    by (rule in_set_dropD)
  then have m: "r \<in> set (relationships w)" and f: "findAll_filter userId st r"
    by (simp_all add: set_sort_docs)
  from f pr show "blockedAt p = None"
    by (simp add: findAll_filter_def populate_def)
  from m f pr show "\<exists>r \<in> set (relationships w). p = populate w r \<and>
            (userA r = userId \<or> userB r = userId) \<and> blockedAt r = None \<and>
            status_value (status r) = toUpperCase st"
    unfolding findAll_filter_def by blast
qed

lemma listing_sample: "findAll (sample_world [sample_rel FRIENDS None]) ''u1'' 1 10 ''_id'' ''ASC'' ''friends''
  = Inr \<lparr>l_data =
        [\<lparr>r_id = 1, userA = Some \<lparr>user_id = ''u1''\<rparr>,
            userB = Some \<lparr>user_id = ''u2''\<rparr>, status = FRIENDS,
            blockedAt = None, privateConversation = None\<rparr>],
        l_page = 1, l_size = 10, l_count = 1\<rparr>"
  by (simp add: findAll_def findAll_filter_def sort_docs_def sort_by_def limit_def field_value_def
     toUpperCase_def toUpperCase_char_def toLowerCase_def toLowerCase_char_def populate_def
     userService_findById_def sample_world_def sample_rel_def Let_def)

theorem findAll_status_case_insensitive_witness:
  "findAll (sample_world [sample_rel FRIENDS None]) ''u1'' 1 10 ''_id'' ''ASC'' ''friends''
     = findAll (sample_world [sample_rel FRIENDS None]) ''u1'' 1 10 ''_id'' ''ASC'' ''FRIENDS'' \<and>
   findAll (sample_world [sample_rel FRIENDS None]) ''u1'' 1 10 ''_id'' ''ASC'' ''friends''
     = Inr \<lparr> l_data = [\<lparr> r_id = 1, userA = Some \<lparr>user_id = ''u1''\<rparr>,
                           userB = Some \<lparr>user_id = ''u2''\<rparr>, status = FRIENDS,
                           blockedAt = None, privateConversation = None \<rparr>],
              l_page = 1, l_size = 10, l_count = 1 \<rparr> \<and>
   (\<exists>r. r \<in> set (relationships (sample_world [sample_rel FRIENDS None])) \<and>
        (userA r = ''u1'' \<or> userB r = ''u1'') \<and> blockedAt r = None \<and>
        status_value (status r) = ''FRIENDS'')"
proof -
  let ?w = "sample_world [sample_rel FRIENDS None]"
  let ?p = "\<lparr> r_id = 1, userA = Some \<lparr>user_id = ''u1''\<rparr>,
              userB = Some \<lparr>user_id = ''u2''\<rparr>, status = FRIENDS,
              blockedAt = None, privateConversation = None \<rparr>"
  let ?l = "\<lparr> l_data = [?p], l_page = 1, l_size = 10, l_count = 1 \<rparr>"
  have lo: "toLowerCase ''Friends'' = ''friends''"
    by (simp add: toLowerCase_def toLowerCase_char_def)
  have up: "toUpperCase ''Friends'' = ''FRIENDS''" "toUpperCase ''friends'' = ''FRIENDS''"
    by (simp_all add: toUpperCase_def toUpperCase_char_def)
  note t = findAll_status_case_insensitive [of ?w "''u1''" 1 10 "''_id''" "''ASC''"]
  from t [of "''Friends''"]
  have "findAll ?w ''u1'' 1 10 ''_id'' ''ASC'' (toLowerCase ''Friends'')
          = findAll ?w ''u1'' 1 10 ''_id'' ''ASC'' (toUpperCase ''Friends'')"
    by (rule conjunct1)
  then have e: "findAll ?w ''u1'' 1 10 ''_id'' ''ASC'' ''friends''
          = findAll ?w ''u1'' 1 10 ''_id'' ''ASC'' ''FRIENDS''"
    unfolding lo up .
  have m: "?p \<in> set (l_data ?l)" by simp
  from t [of "''friends''", THEN conjunct2, THEN conjunct2, rule_format, OF listing_sample m]
  obtain r where "r \<in> set (relationships ?w)" "userA r = ''u1'' \<or> userB r = ''u1''"
    "blockedAt r = None" "status_value (status r) = toUpperCase ''friends''"
    by (elim conjE bexE)
  then have "\<exists>r. r \<in> set (relationships ?w) \<and>
        (userA r = ''u1'' \<or> userB r = ''u1'') \<and> blockedAt r = None \<and>
        status_value (status r) = ''FRIENDS''"
    unfolding up by (intro exI conjI)
  with e listing_sample show ?thesis by (intro conjI)
qed

section \<open>The identifier invariant\<close>

text \<open>
  Several theorems above assume that the relationship documents have distinct
  identifiers. The empty store has this property and every operation of the service
  keeps it, whether it succeeds or fails.
\<close>

lemma save_ids_distinct:
  assumes "save e a b st w = (res, w')" "ids_distinct w"
  shows "ids_distinct w'"
proof (cases res)
  case (Inl err)
  with assms show ?thesis by (auto simp: save_def Let_def split: if_splits)
next
  case (Inr data)
  with assms(1) have s: "save e a b st w = (Inr data, w')" by simp
  from save_result [OF s] have rs: "relationships w' = relationships w @ [data]"
    and i: "r_id data = fresh_oid (map r_id (relationships w))" by simp_all
  have "r_id data \<notin> set (map r_id (relationships w))"
    using fresh_oid_gt [of "r_id data" "map r_id (relationships w)"] i by auto
  with assms(2) rs show ?thesis by (simp add: ids_distinct_def)
qed

lemma create_ids_distinct:
  assumes "create e requestedUserId payload w = (res, w')" "ids_distinct w"
  shows "ids_distinct w'"
  using assms
  by (auto simp: create_def split: if_splits option.splits sum.splits prod.splits
      dest: save_ids_distinct)

lemma findByIdAndUpdate_ids:
  assumes "findByIdAndUpdate e i d w = (res, w')"
  shows "map r_id (relationships w') = map r_id (relationships w)"
  using assms
  by (auto simp: findByIdAndUpdate_def map_r_id_update_first split: option.splits if_splits)

lemma update_ids_distinct:
  assumes "update e i d requestedUser w = (res, w')" "ids_distinct w"
  shows "ids_distinct w'"
  using assms
  by (auto simp: update_def ids_distinct_def
      split: option.splits sum.splits prod.splits dest: findByIdAndUpdate_ids)

lemma blockUser_ids_distinct:
  assumes "blockUser e requestedUser dto w = (res, w')" "ids_distinct w"
  shows "ids_distinct w'"
  using assms
  by (auto simp: blockUser_def ids_distinct_def
      split: option.splits sum.splits prod.splits if_splits dest: findByIdAndUpdate_ids)

lemma confirmFriendship_ids_distinct:
  assumes "confirmFriendship e requestedUserId relationshipId w = (res, w')" "ids_distinct w"
  shows "ids_distinct w'"
  using assms(1)
proof (cases rule: confirmFriendship_cases)
  case 1
  with assms(2) show ?thesis by simp
next
  case (2 rel)
  with assms(2) show ?thesis by simp
next
  case (3 rel err)
  from confirmFriendship_try_prefix [OF 3(3)] have "relationships w' = relationships w"
    by auto
  with assms(2) show ?thesis by (simp add: ids_distinct_def)
next
  case (4 rel r)
  from confirmFriendship_try_success [OF 4(3)]
  have "map r_id (relationships w') = map r_id (relationships w)"
    by (auto simp: map_r_id_update_first)
  with assms(2) show ?thesis by (simp add: ids_distinct_def)
qed

end
